theory Spec2Isabelle
  imports Complex_Main
begin

section \<open>Values, exceptions and the math library\<close>

text \<open>
  The library works on Python numbers, \<open>int\<close> and \<open>float\<close>. Two models of them are
  used. In the first the numbers are what Python has, unbounded integers and IEEE doubles
  with round-to-nearest, ties to even: \<open>euclidean_modulo\<close>, and \<open>_intersect\<close> from its
  first line to its degeneracy checks, are modelled on these. In the second a number is
  a real and every operation is exact: the classes, the distances, \<open>get_intersect\<close> and
  \<open>_intersect\<close> to its last line, whose results go through \<open>math.sin\<close>, \<open>math.cos\<close>,
  \<open>math.asin\<close>, \<open>math.acos\<close> and \<open>math.atan2\<close>, are modelled on these; what is proved
  on the second model is the control flow of the code and its values at inputs where the
  exact operations and the doubles agree in every comparison the code makes. Every
  \<open>raise\<close> and every exception of a built-in that the code can reach is a branch of
  the model.
\<close>

text \<open>
  The exceptions. The first six are Python built-ins that the code raises itself or
  through a built-in; \<open>AttributeError\<close> is what a method call on an object without
  that method raises; the next five are the classes of \<open>_errors.py\<close>. The last name,
  \<open>EmptyInputError\<close>, occurs in the specification only: \<open>_errors.py\<close> declares no
  such class and no function below produces it.
\<close>

datatype error =
    TypeError
  | ValueError
  | SyntaxError
  | ZeroDivisionError
  | OverflowError
  | UnboundLocalError
  | AttributeError
  | IdenticalInputPointError
  | ProbableDivergenceError
  | AmbiguousIntersectionError
  | InfiniteIntersectionError
  | AmbiguousBoxError
  | EmptyInputError

text \<open>Sequencing of computations that may raise: the first exception wins.\<close>

definition bindE :: "error + 'a \<Rightarrow> ('a \<Rightarrow> error + 'b) \<Rightarrow> error + 'b" where
  "bindE m f = (case m of Inl e \<Rightarrow> Inl e | Inr x \<Rightarrow> f x)"

text \<open>\<open>point.py\<close>: class \<open>Point\<close>, and \<open>bearingline.py\<close>: class \<open>BearingLine\<close>.\<close>

record Point =
  p_latitude :: real
  p_longitude :: real

record BearingLine =
  latitude :: real
  longitude :: real
  latitude_radians :: real
  longitude_radians :: real
  bearing :: real
  declination :: real
  true_bearing :: real
  true_bearing_radians :: real

text \<open>
  The values that reach an argument of the library: \<open>None\<close>, a \<open>bool\<close>, a number,
  the two classes, lists and tuples, and any other object.
\<close>

datatype pyval =
    PyNone
  | PyBool bool
  | PyNum real
  | PyLine BearingLine
  | PyPoint Point
  | PyList "pyval list"
  | PyTuple "pyval list"
  | PyOther

text \<open>
  \<open>isinstance(v, (float, int))\<close>: the number a value is, if it is one. \<open>bool\<close> is a
  subclass of \<open>int\<close>, with \<open>True == 1\<close> and \<open>False == 0\<close>.
\<close>

fun num_of :: "pyval \<Rightarrow> real option" where
  "num_of (PyNum r) = Some r"
| "num_of (PyBool b) = Some (if b then 1 else 0)"
| "num_of _ = None"

text \<open>The truth value that \<open>any([...])\<close> and \<open>not\<close> take of a value.\<close>

fun truthy :: "pyval \<Rightarrow> bool" where
  "truthy PyNone = False"
| "truthy (PyBool b) = b"
| "truthy (PyNum r) = (r \<noteq> 0)"
| "truthy (PyList xs) = (xs \<noteq> [])"
| "truthy (PyTuple xs) = (xs \<noteq> [])"
| "truthy _ = True"

text \<open>The functions of \<open>math\<close> and the built-ins the code calls.\<close>

definition py_div :: "real \<Rightarrow> real \<Rightarrow> error + real" where
  "py_div a b = (if b = 0 then Inl ZeroDivisionError else Inr (a / b))"

definition py_sqrt :: "real \<Rightarrow> error + real" where
  "py_sqrt x = (if x < 0 then Inl ValueError else Inr (sqrt x))"

definition py_asin :: "real \<Rightarrow> error + real" where
  "py_asin x = (if - 1 \<le> x \<and> x \<le> 1 then Inr (arcsin x) else Inl ValueError)"

definition py_acos :: "real \<Rightarrow> error + real" where
  "py_acos x = (if - 1 \<le> x \<and> x \<le> 1 then Inr (arccos x) else Inl ValueError)"

definition atan2 :: "real \<Rightarrow> real \<Rightarrow> real" where
  "atan2 y x =
     (if 0 < x then arctan (y / x)
      else if x < 0 then (if 0 \<le> y then arctan (y / x) + pi else arctan (y / x) - pi)
      else if 0 < y then pi / 2
      else if y < 0 then - (pi / 2)
      else 0)"

definition radians :: "real \<Rightarrow> real" where
  "radians x = x * pi / 180"

definition degrees :: "real \<Rightarrow> real" where
  "degrees x = x * 180 / pi"

text \<open>\<open>round(x, n)\<close>: the nearest multiple of \<open>10 ^ (- n)\<close>, a tie going to the even one.\<close>

definition py_round :: "real \<Rightarrow> nat \<Rightarrow> real" where
  "py_round x n =
     (let s = x * 10 ^ n; f = \<lfloor>s\<rfloor>; d = s - of_int f
      in of_int (if d < 1 / 2 then f else if 1 / 2 < d then f + 1
                 else if even f then f else f + 1) / 10 ^ n)"

text \<open>\<open>min(xs)\<close> and \<open>max(xs)\<close> of a list raise \<open>ValueError\<close> on the empty list.\<close>

fun py_min :: "real list \<Rightarrow> error + real" where
  "py_min [] = Inl ValueError"
| "py_min (x # xs) = Inr (fold min xs x)"

fun py_max :: "real list \<Rightarrow> error + real" where
  "py_max [] = Inl ValueError"
| "py_max (x # xs) = Inr (fold max xs x)"

section \<open>IEEE doubles and Python numbers\<close>

text \<open>
  Rounding to the nearest integer, a tie going to the even one; the exponent of the last
  place of a double near \<open>r\<close> (normal from \<open>2 ^ (- 1022)\<close> on, subnormal below); and
  the double nearest to a real \<open>r\<close>, before overflow is looked at.
\<close>

definition round_half_even :: "real \<Rightarrow> int" where
  "round_half_even q =
     (let f = \<lfloor>q\<rfloor>; d = q - of_int f
      in if d < 1 / 2 then f else if 1 / 2 < d then f + 1
         else if even f then f else f + 1)"

definition ulp_exponent :: "real \<Rightarrow> int" where
  "ulp_exponent r = max \<lfloor>log 2 \<bar>r\<bar>\<rfloor> (- 1022) - 52"

definition round_double :: "real \<Rightarrow> real" where
  "round_double r =
     (if r = 0 then 0
      else of_int (round_half_even (r / 2 powi ulp_exponent r)) * 2 powi ulp_exponent r)"

text \<open>
  A \<open>float\<close>: a finite double, an infinity (\<open>True\<close> for the negative one) or NaN.
  \<open>0.0\<close> and \<open>-0.0\<close> are one value here: they are equal in Python and no operation
  below tells them apart. \<open>fl\<close> rounds a real result, overflow giving an infinity.
\<close>

datatype double = Finite real | Infinity bool | NaN

definition fl :: "real \<Rightarrow> double" where
  "fl r = (let d = round_double r in if 2 ^ 1024 \<le> \<bar>d\<bar> then Infinity (r < 0) else Finite d)"

fun ieee_add :: "double \<Rightarrow> double \<Rightarrow> double" where
  "ieee_add (Finite a) (Finite b) = fl (a + b)"
| "ieee_add (Infinity s) (Infinity t) = (if s = t then Infinity s else NaN)"
| "ieee_add (Infinity s) (Finite b) = Infinity s"
| "ieee_add (Finite a) (Infinity t) = Infinity t"
| "ieee_add _ _ = NaN"

fun ieee_neg :: "double \<Rightarrow> double" where
  "ieee_neg (Finite a) = Finite (- a)"
| "ieee_neg (Infinity s) = Infinity (\<not> s)"
| "ieee_neg NaN = NaN"

definition ieee_sub :: "double \<Rightarrow> double \<Rightarrow> double" where
  "ieee_sub a b = ieee_add a (ieee_neg b)"

fun ieee_mul :: "double \<Rightarrow> double \<Rightarrow> double" where
  "ieee_mul (Finite a) (Finite b) = fl (a * b)"
| "ieee_mul (Infinity s) (Infinity t) = Infinity (s \<noteq> t)"
| "ieee_mul (Infinity s) (Finite b) = (if b = 0 then NaN else Infinity (s \<noteq> (b < 0)))"
| "ieee_mul (Finite a) (Infinity t) = (if a = 0 then NaN else Infinity ((a < 0) \<noteq> t))"
| "ieee_mul _ _ = NaN"

fun ieee_div :: "double \<Rightarrow> double \<Rightarrow> double" where
  "ieee_div (Finite a) (Finite b) = fl (a / b)"
| "ieee_div (Infinity s) (Infinity t) = NaN"
| "ieee_div (Infinity s) (Finite b) = Infinity (s \<noteq> (b < 0))"
| "ieee_div (Finite a) (Infinity t) = Finite 0"
| "ieee_div _ _ = NaN"

text \<open>
  A Python number, and the arithmetic of Python on numbers. An \<open>int\<close> that meets a
  \<open>float\<close> is converted first, \<open>OverflowError\<close> if it is too large. \<open>/\<close> of two
  \<open>int\<close>s is the correctly rounded quotient, \<open>OverflowError\<close> if that is too large;
  \<open>/\<close> by zero raises \<open>ZeroDivisionError\<close>; \<open>*\<close> and \<open>-\<close> of two \<open>int\<close>s are
  exact, and of doubles they overflow to an infinity without raising. \<open>math.floor\<close>
  of a \<open>float\<close> is an \<open>int\<close>, \<open>OverflowError\<close> on an infinity and \<open>ValueError\<close> on
  NaN.
\<close>

datatype number = PyInt int | PyFloat double

fun to_double :: "number \<Rightarrow> error + double" where
  "to_double (PyFloat d) = Inr d"
| "to_double (PyInt n) =
     (case fl (of_int n) of Infinity s \<Rightarrow> Inl OverflowError | d \<Rightarrow> Inr d)"

definition float_div :: "double \<Rightarrow> double \<Rightarrow> error + double" where
  "float_div a b = (if b = Finite 0 then Inl ZeroDivisionError else Inr (ieee_div a b))"

fun true_divide :: "number \<Rightarrow> number \<Rightarrow> error + double" where
  "true_divide (PyInt a) (PyInt b) =
     (if b = 0 then Inl ZeroDivisionError
      else case fl (of_int a / of_int b) of Infinity s \<Rightarrow> Inl OverflowError | d \<Rightarrow> Inr d)"
| "true_divide y x = bindE (to_double y) (\<lambda>a. bindE (to_double x) (\<lambda>b. float_div a b))"

fun math_floor :: "double \<Rightarrow> error + int" where
  "math_floor (Finite r) = Inr \<lfloor>r\<rfloor>"
| "math_floor (Infinity s) = Inl OverflowError"
| "math_floor NaN = Inl ValueError"

fun multiply :: "number \<Rightarrow> number \<Rightarrow> error + number" where
  "multiply (PyInt a) (PyInt b) = Inr (PyInt (a * b))"
| "multiply x y = bindE (to_double x) (\<lambda>a. bindE (to_double y) (\<lambda>b. Inr (PyFloat (ieee_mul a b))))"

fun subtract :: "number \<Rightarrow> number \<Rightarrow> error + number" where
  "subtract (PyInt a) (PyInt b) = Inr (PyInt (a - b))"
| "subtract x y = bindE (to_double x) (\<lambda>a. bindE (to_double y) (\<lambda>b. Inr (PyFloat (ieee_sub a b))))"

fun add :: "number \<Rightarrow> number \<Rightarrow> error + number" where
  "add (PyInt a) (PyInt b) = Inr (PyInt (a + b))"
| "add x y = bindE (to_double x) (\<lambda>a. bindE (to_double y) (\<lambda>b. Inr (PyFloat (ieee_add a b))))"

text \<open>
  The comparisons \<open>==\<close> and \<open><\<close> of doubles, false whenever an operand is NaN, and the
  chained comparison \<open>lo <= value <= hi\<close> of a number with two \<open>int\<close> literals, which
  Python decides on the exact values.
\<close>

definition double_eq :: "double \<Rightarrow> double \<Rightarrow> bool" where
  "double_eq a b = (a \<noteq> NaN \<and> a = b)"

fun double_less :: "double \<Rightarrow> double \<Rightarrow> bool" where
  "double_less (Finite a) (Finite b) = (a < b)"
| "double_less (Finite a) (Infinity t) = (\<not> t)"
| "double_less (Infinity s) (Finite b) = s"
| "double_less (Infinity s) (Infinity t) = (s \<and> \<not> t)"
| "double_less _ _ = False"

fun between :: "int \<Rightarrow> number \<Rightarrow> int \<Rightarrow> bool" where
  "between lo (PyInt n) hi = (lo \<le> n \<and> n \<le> hi)"
| "between lo (PyFloat (Finite r)) hi = (of_int lo \<le> r \<and> r \<le> of_int hi)"
| "between lo (PyFloat _) hi = False"

text \<open>
  The module \<open>math\<close>. \<open>math.pi\<close> is the double nearest to \<open>pi\<close>, and
  \<open>math.radians(x)\<close> is \<open>x * degToRad\<close> with the double \<open>degToRad = math.pi / 180.0\<close>.
  A function of \<open>math\<close> returns the double nearest to the exact value, raises
  \<open>ValueError\<close> outside its domain, which an infinity is for the trigonometric
  functions, and maps NaN to NaN. \<open>x ** 2\<close> on a \<open>float\<close> is the rounded square,
  \<open>OverflowError\<close> if that is too large.
\<close>

definition math_pi :: double where
  "math_pi = fl pi"

definition degToRad :: double where
  "degToRad = ieee_div math_pi (Finite 180)"

definition math_radians :: "number \<Rightarrow> error + double" where
  "math_radians x = bindE (to_double x) (\<lambda>d. Inr (ieee_mul d degToRad))"

fun math_sin :: "double \<Rightarrow> error + double" where
  "math_sin (Finite r) = Inr (fl (sin r))"
| "math_sin (Infinity s) = Inl ValueError"
| "math_sin NaN = Inr NaN"

fun math_cos :: "double \<Rightarrow> error + double" where
  "math_cos (Finite r) = Inr (fl (cos r))"
| "math_cos (Infinity s) = Inl ValueError"
| "math_cos NaN = Inr NaN"

fun math_sqrt :: "double \<Rightarrow> error + double" where
  "math_sqrt (Finite r) = (if r < 0 then Inl ValueError else Inr (fl (sqrt r)))"
| "math_sqrt (Infinity s) = (if s then Inl ValueError else Inr (Infinity False))"
| "math_sqrt NaN = Inr NaN"

fun math_asin :: "double \<Rightarrow> error + double" where
  "math_asin (Finite r) = (if \<bar>r\<bar> \<le> 1 then Inr (fl (arcsin r)) else Inl ValueError)"
| "math_asin (Infinity s) = Inl ValueError"
| "math_asin NaN = Inr NaN"

fun math_acos :: "double \<Rightarrow> error + double" where
  "math_acos (Finite r) = (if \<bar>r\<bar> \<le> 1 then Inr (fl (arccos r)) else Inl ValueError)"
| "math_acos (Infinity s) = Inl ValueError"
| "math_acos NaN = Inr NaN"

fun float_square :: "double \<Rightarrow> error + double" where
  "float_square (Finite r) =
     (case fl (r * r) of Infinity s \<Rightarrow> Inl OverflowError | d \<Rightarrow> Inr d)"
| "float_square (Infinity s) = Inr (Infinity False)"
| "float_square NaN = Inr NaN"

section \<open>\<open>_safe_math.py\<close>\<close>

definition euclidean_modulo :: "number \<Rightarrow> number \<Rightarrow> error + number" where
  "euclidean_modulo y x =
     bindE (true_divide y x) (\<lambda>q.
     bindE (math_floor q) (\<lambda>n.
     bindE (multiply x (PyInt n)) (\<lambda>p.
     subtract y p)))"

text \<open>
  The same expression on the exact numbers of the second model, as the solver below
  calls it.
\<close>

definition euclidean_modulo_exact :: "real \<Rightarrow> real \<Rightarrow> error + real" where
  "euclidean_modulo_exact y x = bindE (py_div y x) (\<lambda>q. Inr (y - x * of_int \<lfloor>q\<rfloor>))"

definition asin_safe :: "real \<Rightarrow> error + real" where
  "asin_safe x = py_asin (max (- 1) (min x 1))"

definition acos_safe :: "real \<Rightarrow> error + real" where
  "acos_safe x = py_acos (max (- 1) (min x 1))"

text \<open>
  The two clamped inverses on doubles. \<open>min(x, 1)\<close> is \<open>1\<close> if \<open>1 < x\<close> and \<open>x\<close>
  otherwise, \<open>max(-1, m)\<close> is \<open>m\<close> if \<open>m > -1\<close> and \<open>-1\<close> otherwise; the \<open>int\<close>s
  \<open>1\<close> and \<open>-1\<close> are written as the doubles that \<open>math.asin\<close> and \<open>math.acos\<close>
  convert them to.
\<close>

definition clamp :: "double \<Rightarrow> double" where
  "clamp x = (let m = (if double_less (Finite 1) x then Finite 1 else x)
              in if double_less (Finite (- 1)) m then m else Finite (- 1))"

definition asin_safe_double :: "double \<Rightarrow> error + double" where
  "asin_safe_double x = math_asin (clamp x)"

definition acos_safe_double :: "double \<Rightarrow> error + double" where
  "acos_safe_double x = math_acos (clamp x)"

section \<open>\<open>point.py\<close>\<close>

text \<open>
  \<open>Point.__init__\<close> runs the latitude setter, then the longitude setter. Each raises
  \<open>TypeError\<close> on a value that is no number and \<open>ValueError\<close> on a number out of
  range.
\<close>

definition Point_init :: "pyval \<Rightarrow> pyval \<Rightarrow> error + Point" where
  "Point_init lat_arg lon_arg =
     (case num_of lat_arg of None \<Rightarrow> Inl TypeError
      | Some la \<Rightarrow>
          if \<not> (- 90 \<le> la \<and> la \<le> 90) then Inl ValueError
          else (case num_of lon_arg of None \<Rightarrow> Inl TypeError
                | Some lo \<Rightarrow>
                    if \<not> (- 180 \<le> lo \<and> lo \<le> 180) then Inl ValueError
                    else Inr \<lparr>p_latitude = la, p_longitude = lo\<rparr>))"

section \<open>\<open>bearingline.py\<close>\<close>

subsection \<open>The property setters and the constructor\<close>

definition latitude_setter :: "pyval \<Rightarrow> error + real" where
  "latitude_setter v =
     (case num_of v of None \<Rightarrow> Inl TypeError
      | Some a \<Rightarrow> if \<not> (- 90 \<le> a \<and> a \<le> 90) then Inl ValueError else Inr a)"

definition longitude_setter :: "pyval \<Rightarrow> error + real" where
  "longitude_setter v =
     (case num_of v of None \<Rightarrow> Inl TypeError
      | Some a \<Rightarrow> if \<not> (- 180 \<le> a \<and> a \<le> 180) then Inl ValueError else Inr a)"

definition bearing_setter :: "pyval \<Rightarrow> error + real" where
  "bearing_setter v =
     (case num_of v of None \<Rightarrow> Inl TypeError
      | Some a \<Rightarrow> if \<not> (0 \<le> a \<and> a \<le> 360) then Inl ValueError else Inr a)"

definition declination_setter :: "pyval \<Rightarrow> error + real" where
  "declination_setter v =
     (case num_of v of None \<Rightarrow> Inl TypeError
      | Some a \<Rightarrow> if \<not> (- 180 \<le> a \<and> a \<le> 180) then Inl ValueError else Inr a)"

text \<open>
  \<open>BearingLine.__init__\<close>, in the order of its assignments. The default
  \<open>declination=0\<close> is the argument \<open>PyNum 0\<close>.
\<close>

definition BearingLine_init :: "pyval \<Rightarrow> pyval \<Rightarrow> pyval \<Rightarrow> pyval \<Rightarrow> error + BearingLine" where
  "BearingLine_init lat_arg lon_arg bearing_arg declination_arg =
     bindE (latitude_setter lat_arg) (\<lambda>la.
     bindE (longitude_setter lon_arg) (\<lambda>lo.
     bindE (bearing_setter bearing_arg) (\<lambda>b.
     bindE (declination_setter declination_arg) (\<lambda>d.
       Inr \<lparr>latitude = la, longitude = lo,
            latitude_radians = radians la, longitude_radians = radians lo,
            bearing = b, declination = d,
            true_bearing = b + d, true_bearing_radians = radians (b + d)\<rparr>))))"

text \<open>A line is constructed when it is what the constructor builds from its own fields.\<close>

definition constructed :: "BearingLine \<Rightarrow> bool" where
  "constructed l =
     (BearingLine_init (PyNum (latitude l)) (PyNum (longitude l))
        (PyNum (bearing l)) (PyNum (declination l)) = Inr l)"

subsection \<open>\<open>get_haversine_distance\<close>\<close>

text \<open>
  Lines 137 to 164: the chain of argument shapes. It raises, or it assigns the locals
  \<open>lat1\<close>, \<open>lon1\<close>, \<open>lat2\<close>, \<open>lon2\<close> (the result \<open>Some\<close> of them), or no branch of
  it runs and \<open>lat1\<close> and \<open>lon1\<close> stay unassigned (the result \<open>None\<close>).
\<close>

definition haversine_arguments ::
  "BearingLine \<Rightarrow> pyval \<Rightarrow> pyval \<Rightarrow> pyval \<Rightarrow> error + (real \<times> real \<times> real \<times> real) option" where
  "haversine_arguments self lat2 lon2 other =
     (if other = PyNone \<and> \<not> (lat2 = PyNone \<and> lon2 = PyNone) then
        (case num_of lat2 of None \<Rightarrow> Inl TypeError
         | Some a \<Rightarrow>
            (case num_of lon2 of None \<Rightarrow> Inl TypeError
             | Some b \<Rightarrow>
                if \<not> (- 90 \<le> a \<and> a \<le> 90 \<and> - 180 \<le> b \<and> b \<le> 180) then Inl ValueError
                else Inr (Some (latitude_radians self, longitude_radians self,
                                radians a, radians b))))
      else if other \<noteq> PyNone \<and> (lat2 = PyNone \<and> lon2 = PyNone) then
        (case other of
           PyLine l \<Rightarrow> Inr (Some (latitude_radians self, longitude_radians self,
                                  latitude_radians l, longitude_radians l))
         | _ \<Rightarrow> Inl TypeError)
      else if other = PyNone \<and> lat2 = PyNone \<and> lon2 = PyNone then Inl SyntaxError
      else if other \<noteq> PyNone \<and> lat2 \<noteq> PyNone \<and> lon2 \<noteq> PyNone then Inl SyntaxError
      else Inr None)"

text \<open>Lines 166 to 176: the haversine formula on the four locals.\<close>

definition haversine_km :: "real \<Rightarrow> real \<Rightarrow> real \<Rightarrow> real \<Rightarrow> error + real" where
  "haversine_km lat1 lon1 lat2 lon2 =
     (let radius = 6371;
          h = (sin ((lat2 - lat1) / 2))\<^sup>2 + cos lat1 * cos lat2 * (sin ((lon2 - lon1) / 2))\<^sup>2;
          h' = min 1 h
      in bindE (py_sqrt h') (\<lambda>r. bindE (py_asin r) (\<lambda>a. Inr (2 * radius * a))))"

text \<open>
  The whole method. The formula reads \<open>lat2\<close>, then \<open>lat1\<close>: where no branch assigned
  \<open>lat1\<close>, that read raises \<open>UnboundLocalError\<close>.
\<close>

definition get_haversine_distance ::
  "BearingLine \<Rightarrow> pyval \<Rightarrow> pyval \<Rightarrow> pyval \<Rightarrow> error + real" where
  "get_haversine_distance self lat2 lon2 other =
     bindE (haversine_arguments self lat2 lon2 other) (\<lambda>locals.
       case locals of
         None \<Rightarrow> Inl UnboundLocalError
       | Some (lat1, lon1, lat2', lon2') \<Rightarrow> haversine_km lat1 lon1 lat2' lon2')"

text \<open>The call \<open>other.get_haversine_distance(...)\<close> on an argument of any class.\<close>

definition method_get_haversine_distance ::
  "pyval \<Rightarrow> pyval \<Rightarrow> pyval \<Rightarrow> pyval \<Rightarrow> error + real" where
  "method_get_haversine_distance obj lat2 lon2 other =
     (case obj of PyLine l \<Rightarrow> get_haversine_distance l lat2 lon2 other
      | _ \<Rightarrow> Inl AttributeError)"

subsection \<open>\<open>_intersect\<close>\<close>

text \<open>
  On the exact numbers, lines 216 to 229: the distance \<open>dst12\<close> between the origins,
  the courses \<open>crs12\<close> and \<open>crs21\<close> between them, and the angles \<open>ang1\<close> and
  \<open>ang2\<close>. The two quotients raise \<open>ZeroDivisionError\<close> on a zero divisor.
\<close>

definition course_angles ::
  "real \<Rightarrow> real \<Rightarrow> real \<Rightarrow> real \<Rightarrow> real \<Rightarrow> real \<Rightarrow> error + (real \<times> real \<times> real)" where
  "course_angles lat1 lon1 crs13 lat2 lon2 crs23 =
     bindE (py_sqrt ((sin ((lat1 - lat2) / 2))\<^sup>2
                     + cos lat1 * cos lat2 * (sin ((lon1 - lon2) / 2))\<^sup>2)) (\<lambda>r.
     bindE (asin_safe r) (\<lambda>a.
     let dst12 = 2 * a in
     bindE (if sin (lon2 - lon1) < 0 then
              bindE (py_div (sin lat2 - sin lat1 * cos dst12) (sin dst12 * cos lat1)) (\<lambda>q1.
              bindE (acos_safe q1) (\<lambda>c1.
              bindE (py_div (sin lat1 - sin lat2 * cos dst12) (sin dst12 * cos lat2)) (\<lambda>q2.
              bindE (acos_safe q2) (\<lambda>c2.
              Inr (c1, 2 * pi - c2)))))
            else
              bindE (py_div (sin lat2 - sin lat1 * cos dst12) (sin dst12 * cos lat1)) (\<lambda>q1.
              bindE (acos_safe q1) (\<lambda>c1.
              bindE (py_div (sin lat1 - sin lat2 * cos dst12) (sin dst12 * cos lat2)) (\<lambda>q2.
              bindE (acos_safe q2) (\<lambda>c2.
              Inr (2 * pi - c1, c2)))))) (\<lambda>(crs12, crs21).
     bindE (euclidean_modulo_exact (crs13 - crs12 + pi) (2 * pi)) (\<lambda>m1.
     bindE (euclidean_modulo_exact (crs21 - crs23 + pi) (2 * pi)) (\<lambda>m2.
     Inr (dst12, m1 - pi, m2 - pi))))))"

text \<open>
  Lines 246 to 258: the spherical triangle, and the intersection in degrees, each
  coordinate rounded to 5 places.
\<close>

definition spherical_triangle ::
  "real \<Rightarrow> real \<Rightarrow> real \<Rightarrow> real \<Rightarrow> real \<Rightarrow> real \<Rightarrow> error + (real \<times> real)" where
  "spherical_triangle lat1 lon1 crs13 dst12 ang1 ang2 =
     (let ang1' = \<bar>ang1\<bar>; ang2' = \<bar>ang2\<bar> in
      bindE (acos_safe (- cos ang1' * cos ang2' + sin ang1' * sin ang2' * cos dst12)) (\<lambda>ang3.
      let dst13 = atan2 (sin dst12 * sin ang1' * sin ang2') (cos ang2' + cos ang1' * cos ang3) in
      bindE (asin_safe (sin lat1 * cos dst13 + cos lat1 * sin dst13 * cos crs13)) (\<lambda>lat3.
      let dlon = atan2 (sin crs13 * sin dst13 * cos lat1) (cos dst13 - sin lat1 * sin lat3) in
      bindE (euclidean_modulo_exact (lon1 - dlon + pi) (2 * pi)) (\<lambda>m.
      let lon3 = m - pi in
      Inr (py_round (degrees lat3) 5, py_round (degrees (- lon3)) 5)))))"

text \<open>
  The method \<open>_intersect\<close>: the result is an exception, \<open>None\<close>, or the pair
  \<open>(latitude, longitude)\<close>.
\<close>

definition intersect :: "BearingLine \<Rightarrow> pyval \<Rightarrow> pyval \<Rightarrow> error + (real \<times> real) option" where
  "intersect self other suppress_errors =
     (case other of
        PyLine l \<Rightarrow>
          (case suppress_errors of
             PyBool suppress \<Rightarrow>
               (let lat1 = latitude_radians self; lon1 = - longitude_radians self;
                    crs13 = true_bearing_radians self;
                    lat2 = latitude_radians l; lon2 = - longitude_radians l;
                    crs23 = true_bearing_radians l
                in if lat1 = lat2 \<and> lon1 = lon2 then
                     (if \<not> suppress then Inl IdenticalInputPointError else Inr None)
                   else
                     bindE (course_angles lat1 lon1 crs13 lat2 lon2 crs23) (\<lambda>(dst12, ang1, ang2).
                       if sin ang1 = 0 \<and> sin ang2 = 0 then
                         (if \<not> suppress then Inl InfiniteIntersectionError else Inr None)
                       else if sin ang1 * sin ang2 < 0 then
                         (if \<not> suppress then Inl AmbiguousIntersectionError else Inr None)
                       else
                         bindE (spherical_triangle lat1 lon1 crs13 dst12 ang1 ang2)
                           (\<lambda>p. Inr (Some p))))
           | _ \<Rightarrow> Inl TypeError)
      | _ \<Rightarrow> Inl TypeError)"

subsection \<open>The constructor and \<open>_intersect\<close> on doubles\<close>

text \<open>
  The three attributes that \<open>_intersect\<close> reads, as the doubles that the constructor
  stores, and lines 35 to 42 of the constructor on numbers: the setters check the ranges
  (NaN and the infinities fail every chained comparison), \<open>math.radians\<close> converts, and
  the true bearing is \<open>bearing + declination\<close>.
\<close>

record BearingLine_double =
  latitude_radians' :: double
  longitude_radians' :: double
  true_bearing_radians' :: double

definition BearingLine_init_double ::
  "number \<Rightarrow> number \<Rightarrow> number \<Rightarrow> number \<Rightarrow> error + BearingLine_double" where
  "BearingLine_init_double lat_arg lon_arg bearing_arg declination_arg =
     (if \<not> between (- 90) lat_arg 90 then Inl ValueError
      else if \<not> between (- 180) lon_arg 180 then Inl ValueError
      else bindE (math_radians lat_arg) (\<lambda>la.
           bindE (math_radians lon_arg) (\<lambda>lo.
           if \<not> between 0 bearing_arg 360 then Inl ValueError
           else if \<not> between (- 180) declination_arg 180 then Inl ValueError
           else bindE (add bearing_arg declination_arg) (\<lambda>tb.
                bindE (math_radians tb) (\<lambda>crs.
                Inr \<lparr>latitude_radians' = la, longitude_radians' = lo,
                     true_bearing_radians' = crs\<rparr>)))))"

text \<open>
  Line 217, the distance \<open>dst12\<close>; one of the two quotients of lines 221 to 225, which
  raises \<open>ZeroDivisionError\<close> on the divisor \<open>0.0\<close>; lines 220 to 225, the courses
  \<open>crs12\<close> and \<open>crs21\<close>; and one of the angles of lines 228 and 229. The operands are
  evaluated in the order of the source. The \<open>int\<close> literal \<open>2\<close> meets a \<open>float\<close>
  in each of its occurrences and is written as the double \<open>2.0\<close>.
\<close>

definition distance_double :: "double \<Rightarrow> double \<Rightarrow> double \<Rightarrow> double \<Rightarrow> error + double" where
  "distance_double lat1 lon1 lat2 lon2 =
     bindE (math_sin (ieee_div (ieee_sub lat1 lat2) (Finite 2))) (\<lambda>s1.
     bindE (float_square s1) (\<lambda>a.
     bindE (math_cos lat1) (\<lambda>c1.
     bindE (math_cos lat2) (\<lambda>c2.
     bindE (math_sin (ieee_div (ieee_sub lon1 lon2) (Finite 2))) (\<lambda>s2.
     bindE (float_square s2) (\<lambda>b.
     bindE (math_sqrt (ieee_add a (ieee_mul (ieee_mul c1 c2) b))) (\<lambda>r.
     bindE (asin_safe_double r) (\<lambda>x.
     Inr (ieee_mul (Finite 2) x)))))))))"

definition course_quotient :: "double \<Rightarrow> double \<Rightarrow> double \<Rightarrow> error + double" where
  "course_quotient latA latB dst12 =
     bindE (math_sin latB) (\<lambda>sb.
     bindE (math_sin latA) (\<lambda>sa.
     bindE (math_cos dst12) (\<lambda>cd.
     bindE (math_sin dst12) (\<lambda>sd.
     bindE (math_cos latA) (\<lambda>ca.
     float_div (ieee_sub sb (ieee_mul sa cd)) (ieee_mul sd ca))))))"

definition courses_double ::
  "double \<Rightarrow> double \<Rightarrow> double \<Rightarrow> double \<Rightarrow> double \<Rightarrow> error + (double \<times> double)" where
  "courses_double lat1 lon1 lat2 lon2 dst12 =
     (let two_pi = ieee_mul (Finite 2) math_pi in
      bindE (math_sin (ieee_sub lon2 lon1)) (\<lambda>s.
      bindE (course_quotient lat1 lat2 dst12) (\<lambda>q1.
      bindE (acos_safe_double q1) (\<lambda>c1.
      bindE (course_quotient lat2 lat1 dst12) (\<lambda>q2.
      bindE (acos_safe_double q2) (\<lambda>c2.
      if double_less s (Finite 0) then Inr (c1, ieee_sub two_pi c2)
      else Inr (ieee_sub two_pi c1, c2)))))))"

definition angle_double :: "double \<Rightarrow> error + double" where
  "angle_double d =
     bindE (euclidean_modulo (PyFloat (ieee_add d math_pi))
              (PyFloat (ieee_mul (Finite 2) math_pi))) (\<lambda>m.
     bindE (to_double m) (\<lambda>x. Inr (ieee_sub x math_pi)))"

text \<open>
  Lines 198 to 245 of \<open>_intersect\<close> on doubles, for a \<open>BearingLine\<close> \<open>other\<close> and a
  \<open>bool\<close> \<open>suppress_errors\<close>: the result is an exception, \<open>None\<close>, or the values
  \<open>dst12\<close>, \<open>ang1\<close> and \<open>ang2\<close> with which the \<open>else\<close> branch of line 245 goes on to
  compute the intersection. In line 231 \<open>and\<close> evaluates \<open>math.sin(ang2)\<close> only if
  \<open>math.sin(ang1) == 0\<close>.
\<close>

definition intersect_double ::
  "BearingLine_double \<Rightarrow> BearingLine_double \<Rightarrow> bool
     \<Rightarrow> error + (double \<times> double \<times> double) option" where
  "intersect_double self other suppress_errors =
     (let lat1 = latitude_radians' self; lon1 = ieee_neg (longitude_radians' self);
          crs13 = true_bearing_radians' self;
          lat2 = latitude_radians' other; lon2 = ieee_neg (longitude_radians' other);
          crs23 = true_bearing_radians' other
      in if double_eq lat1 lat2 \<and> double_eq lon1 lon2 then
           (if \<not> suppress_errors then Inl IdenticalInputPointError else Inr None)
         else
           bindE (distance_double lat1 lon1 lat2 lon2) (\<lambda>dst12.
           bindE (courses_double lat1 lon1 lat2 lon2 dst12) (\<lambda>(crs12, crs21).
           bindE (angle_double (ieee_sub crs13 crs12)) (\<lambda>ang1.
           bindE (angle_double (ieee_sub crs21 crs23)) (\<lambda>ang2.
           bindE (math_sin ang1) (\<lambda>s1.
           bindE (if double_eq s1 (Finite 0)
                  then bindE (math_sin ang2) (\<lambda>s2. Inr (double_eq s2 (Finite 0)))
                  else Inr False) (\<lambda>both_zero.
           if both_zero then
             (if \<not> suppress_errors then Inl InfiniteIntersectionError else Inr None)
           else
             bindE (math_sin ang1) (\<lambda>t1.
             bindE (math_sin ang2) (\<lambda>t2.
             if double_less (ieee_mul t1 t2) (Finite 0) then
               (if \<not> suppress_errors then Inl AmbiguousIntersectionError else Inr None)
             else Inr (Some (dst12, ang1, ang2)))))))))))"

subsection \<open>\<open>get_intersect\<close>\<close>

text \<open>
  The result is an exception or a value: \<open>None\<close>, the tuple of \<open>_intersect\<close>, or a
  \<open>Point\<close>.
\<close>

definition get_intersect ::
  "BearingLine \<Rightarrow> pyval \<Rightarrow> pyval \<Rightarrow> pyval \<Rightarrow> pyval \<Rightarrow> pyval \<Rightarrow> error + pyval" where
  "get_intersect self other warn_probable_divergence suppress_probable_divergence
       suppress_greater_than ignore_errors =
     (case warn_probable_divergence of
        PyBool warn \<Rightarrow>
          (case suppress_probable_divergence of
             PyBool suppress \<Rightarrow>
               if \<not> (num_of suppress_greater_than \<noteq> None \<or> suppress_greater_than = PyNone)
               then Inl TypeError
               else
                 bindE (intersect self other ignore_errors) (\<lambda>intersection.
                 if \<not> (warn \<or> suppress \<or> truthy suppress_greater_than) then
                   Inr (case intersection of None \<Rightarrow> PyNone
                        | Some (la, lo) \<Rightarrow> PyTuple [PyNum la, PyNum lo])
                 else
                   (case intersection of
                      None \<Rightarrow> Inr PyNone
                    | Some (la, lo) \<Rightarrow>
                        bindE (get_haversine_distance self (PyNum la) (PyNum lo) PyNone)
                          (\<lambda>this_point_to_intersect.
                        bindE (method_get_haversine_distance other (PyNum la) (PyNum lo) PyNone)
                          (\<lambda>other_point_to_intersect.
                        bindE (get_haversine_distance self PyNone PyNone other)
                          (\<lambda>this_point_to_other.
                        let max_point_to_intersect =
                              max this_point_to_intersect other_point_to_intersect;
                            point = bindE (Point_init (PyNum la) (PyNum lo))
                                      (\<lambda>p. Inr (PyPoint p))
                        in
                        if suppress_greater_than \<noteq> PyNone
                           \<and> (case num_of suppress_greater_than of
                                Some cap \<Rightarrow> cap < max_point_to_intersect | None \<Rightarrow> False)
                        then Inr PyNone
                        else if 10000 < this_point_to_intersect
                                \<and> 10000 < other_point_to_intersect
                                \<and> this_point_to_other < 10000
                        then (if suppress then Inr PyNone
                              else if warn then Inl ProbableDivergenceError
                              else point)
                        else point)))))
           | _ \<Rightarrow> Inl TypeError)
      | _ \<Rightarrow> Inl TypeError)"

section \<open>\<open>geo_helpers.py\<close>\<close>

text \<open>The items of a list or a tuple; the points of a list of values, if all are points.\<close>

fun items_of :: "pyval \<Rightarrow> pyval list option" where
  "items_of (PyList xs) = Some xs"
| "items_of (PyTuple xs) = Some xs"
| "items_of _ = None"

fun points_of :: "pyval list \<Rightarrow> Point list option" where
  "points_of [] = Some []"
| "points_of (PyPoint p # xs) = map_option ((#) p) (points_of xs)"
| "points_of (_ # xs) = None"

definition bounding_box :: "pyval \<Rightarrow> error + (real \<times> real \<times> real \<times> real)" where
  "bounding_box point_list =
     (case items_of point_list of
        None \<Rightarrow> Inl TypeError
      | Some xs \<Rightarrow>
          (case points_of xs of
             None \<Rightarrow> Inl TypeError
           | Some ps \<Rightarrow>
               (let latitudes = map p_latitude ps; longitudes = map p_longitude ps in
                bindE (py_min longitudes) (\<lambda>min_lon.
                bindE (py_max longitudes) (\<lambda>max_lon.
                bindE (py_min latitudes) (\<lambda>min_lat.
                bindE (py_max latitudes) (\<lambda>max_lat.
                if min_lon = max_lon \<or> min_lat = max_lat then Inl AmbiguousBoxError
                else Inr (min_lon, max_lon, min_lat, max_lat))))))))"

section \<open>Lines used as concrete inputs\<close>

text \<open>
  \<open>BearingLine(0, lon, 0)\<close>: the line that leaves the equator at longitude \<open>lon\<close>,
  heading north.
\<close>

definition equator_line :: "real \<Rightarrow> BearingLine" where
  "equator_line lon =
     \<lparr>latitude = 0, longitude = lon, latitude_radians = 0, longitude_radians = radians lon,
      bearing = 0, declination = 0, true_bearing = 0, true_bearing_radians = 0\<rparr>"

section \<open>Properties of \<open>_safe_math.py\<close>\<close>

lemma bindE_Inr [simp]: "bindE (Inr x) f = f x"
  by (simp add: bindE_def)

lemma bindE_Inl [simp]: "bindE (Inl e) f = Inl e"
  by (simp add: bindE_def)

lemma euclidean_modulo_exact_value:
  "x \<noteq> 0 \<Longrightarrow> euclidean_modulo_exact y x = Inr (y - x * of_int \<lfloor>y / x\<rfloor>)"
  by (simp add: euclidean_modulo_exact_def py_div_def)

lemma floor_remainder_pos:
  fixes x y :: real
  assumes "0 < x"
  shows "0 \<le> y - x * of_int \<lfloor>y / x\<rfloor>" and "y - x * of_int \<lfloor>y / x\<rfloor> < x"
proof -
  have "of_int \<lfloor>y / x\<rfloor> * x \<le> y / x * x"
    using assms by (intro mult_right_mono of_int_floor_le) simp
  then show "0 \<le> y - x * of_int \<lfloor>y / x\<rfloor>"
    using assms by (simp add: mult.commute)
  have "y / x < of_int \<lfloor>y / x\<rfloor> + 1" by linarith
  then have "y / x * x < (of_int \<lfloor>y / x\<rfloor> + 1) * x"
    using assms by (intro mult_strict_right_mono)
  then show "y - x * of_int \<lfloor>y / x\<rfloor> < x"
    using assms by (simp add: algebra_simps)
qed

lemma floor_remainder_neg:
  fixes x y :: real
  assumes "x < 0"
  shows "x < y - x * of_int \<lfloor>y / x\<rfloor>" and "y - x * of_int \<lfloor>y / x\<rfloor> \<le> 0"
proof -
  have "y / x * x \<le> of_int \<lfloor>y / x\<rfloor> * x"
    using assms by (intro mult_right_mono_neg of_int_floor_le) simp
  then show "y - x * of_int \<lfloor>y / x\<rfloor> \<le> 0"
    using assms by (simp add: mult.commute)
  have "y / x < of_int \<lfloor>y / x\<rfloor> + 1" by linarith
  then have "(of_int \<lfloor>y / x\<rfloor> + 1) * x < y / x * x"
    using assms by (intro mult_strict_right_mono_neg)
  then show "x < y - x * of_int \<lfloor>y / x\<rfloor>"
    using assms by (simp add: algebra_simps)
qed

text \<open>
  The expression \<open>y - x * floor(y / x)\<close> in exact arithmetic: for a nonzero \<open>x\<close> the
  value has the sign of \<open>x\<close>, in \<open>[0, x)\<close> when \<open>x\<close> is positive and in \<open>(x, 0]\<close>
  when \<open>x\<close> is negative.
\<close>

theorem euclidean_modulo_exact_sign_of_divisor:
  "x \<noteq> 0 \<Longrightarrow>
     (\<exists>r. euclidean_modulo_exact y x = Inr r \<and> r = y - x * of_int \<lfloor>y / x\<rfloor> \<and>
          (0 < x \<longrightarrow> 0 \<le> r \<and> r < x) \<and> (x < 0 \<longrightarrow> x < r \<and> r \<le> 0))
     \<and> euclidean_modulo_exact (- 1) 3 = Inr 2"
proof (intro conjI)
  assume nz: "x \<noteq> 0"
  show "\<exists>r. euclidean_modulo_exact y x = Inr r \<and> r = y - x * of_int \<lfloor>y / x\<rfloor> \<and>
          (0 < x \<longrightarrow> 0 \<le> r \<and> r < x) \<and> (x < 0 \<longrightarrow> x < r \<and> r \<le> 0)"
    using nz floor_remainder_pos [of x y] floor_remainder_neg [of x y]
    by (simp add: euclidean_modulo_exact_value)
  have "\<lfloor>- 1 / (3::real)\<rfloor> = - 1" by (simp add: floor_eq_iff)
  then show "euclidean_modulo_exact (- 1) 3 = Inr 2"
    by (simp add: euclidean_modulo_exact_def py_div_def)
qed

theorem euclidean_modulo_exact_sign_of_divisor_witness:
  "(3::real) \<noteq> 0 \<and> euclidean_modulo_exact 7 3 = Inr 1 \<and> (- 3::real) \<noteq> 0 \<and>
   euclidean_modulo_exact 7 (- 3) = Inr (- 2) \<and> euclidean_modulo_exact (- 1) 3 = Inr 2"
proof -
  have a: "\<lfloor>7 / (3::real)\<rfloor> = 2" by (simp add: floor_eq_iff)
  have b: "\<lfloor>- (7 / (3::real))\<rfloor> = - 3" by (simp add: floor_eq_iff)
  from euclidean_modulo_exact_sign_of_divisor [of 3 7] a
  have 1: "euclidean_modulo_exact 7 3 = Inr 1" and 3: "euclidean_modulo_exact (- 1) 3 = Inr 2" by auto
  from euclidean_modulo_exact_sign_of_divisor [of "- 3" 7] b
  have 2: "euclidean_modulo_exact 7 (- 3) = Inr (- 2)" by auto
  from 1 2 3 show ?thesis by simp
qed

subsection \<open>\<open>euclidean_modulo\<close> on Python numbers\<close>

lemma round_half_even_int: "round_half_even (of_int n) = n"
  by (simp add: round_half_even_def)

lemma two_powi_pos: "0 < (2::real) powi k"
  by (rule zero_less_power_int) simp

lemma two_powr_int: "(2::real) powr (of_int j) = 2 powi j"
  by (simp add: powr_real_of_int' power_int_def)

lemma floor_log2_eq:
  assumes "2 powi k \<le> a" and "a < 2 powi (k + 1)"
  shows "\<lfloor>log 2 a\<rfloor> = k"
proof -
  have a: "0 < a" using assms(1) two_powi_pos [of k] by linarith
  have "2 powr (of_int k) \<le> a \<and> a < 2 powr (of_int k + 1)"
    using assms two_powr_int [of k] two_powr_int [of "k + 1"] by simp
  then show ?thesis using a by (simp add: floor_log_eq_powr_iff)
qed

lemma ulp_exponent_normal:
  assumes "2 powi e \<le> \<bar>r\<bar>" and "\<bar>r\<bar> < 2 powi (e + 1)" and "- 1022 \<le> e"
  shows "ulp_exponent r = e - 52"
  using floor_log2_eq [OF assms(1,2)] assms(3) by (simp add: ulp_exponent_def)

lemma round_double_eval:
  assumes "2 powi e \<le> \<bar>r\<bar>" and "\<bar>r\<bar> < 2 powi (e + 1)" and "- 1022 \<le> e"
  shows "round_double r = of_int (round_half_even (r / 2 powi (e - 52))) * 2 powi (e - 52)"
proof -
  have "0 < \<bar>r\<bar>" using assms(1) two_powi_pos [of e] by linarith
  then have "r \<noteq> 0" by simp
  then show ?thesis by (simp add: round_double_def ulp_exponent_normal [OF assms])
qed

lemma round_half_even_nearest:
  assumes "of_int m - 1 / 2 < q" and "q < of_int m + 1 / 2"
  shows "round_half_even q = m"
proof (cases "of_int m \<le> q")
  case True
  then have "\<lfloor>q\<rfloor> = m" using assms(2) by (simp add: floor_eq_iff)
  then show ?thesis using assms(2) by (simp add: round_half_even_def Let_def)
next
  case False
  then have f: "\<lfloor>q\<rfloor> = m - 1" using assms(1) by (simp add: floor_eq_iff)
  have "1 / 2 < q - of_int (m - 1)" using assms(1) by simp
  then show ?thesis unfolding round_half_even_def Let_def f by simp
qed

lemma round_half_even_tie:
  assumes "q = of_int f + 1 / 2"
  shows "round_half_even q = (if even f then f else f + 1)"
proof -
  have "\<lfloor>q\<rfloor> = f" using assms by (simp add: floor_eq_iff)
  then show ?thesis using assms by (simp add: round_half_even_def Let_def)
qed

lemma round_double_nearest:
  assumes "u = 2 powi (e - 52)" and "2 powi e \<le> \<bar>r\<bar>" and "\<bar>r\<bar> < 2 powi (e + 1)"
    and "- 1022 \<le> e" and "of_int m - 1 / 2 < r / u" and "r / u < of_int m + 1 / 2"
  shows "round_double r = of_int m * u"
  using round_double_eval [OF assms(2,3,4)] round_half_even_nearest [OF assms(5,6)] assms(1)
  by simp

lemma round_double_tie:
  assumes "u = 2 powi (e - 52)" and "2 powi e \<le> \<bar>r\<bar>" and "\<bar>r\<bar> < 2 powi (e + 1)"
    and "- 1022 \<le> e" and "r / u = of_int f + 1 / 2"
  shows "round_double r = of_int (if even f then f else f + 1) * u"
  using round_double_eval [OF assms(2,3,4)] round_half_even_tie [OF assms(5)] assms(1)
  by simp

lemma fl_finite: "\<bar>round_double r\<bar> < 2 ^ 1024 \<Longrightarrow> fl r = Finite (round_double r)"
  by (simp add: fl_def Let_def)

lemma small_below_overflow: "\<bar>d\<bar> \<le> 2 ^ 60 \<Longrightarrow> \<bar>d :: real\<bar> < 2 ^ 1024"
proof -
  assume "\<bar>d\<bar> \<le> 2 ^ 60"
  moreover have "(2::real) ^ 60 < 2 ^ 1024" by (rule power_strict_increasing) simp_all
  ultimately show ?thesis by linarith
qed

lemma fl_value:
  assumes "round_double r = d" and "\<bar>d\<bar> \<le> 2 ^ 60"
  shows "fl r = Finite d"
  using fl_finite [of r] small_below_overflow [OF assms(2)] assms(1) by simp

lemma rd_quotient_1: "round_double (100000000000000001 / 3) = 33333333333333332"
  using round_double_nearest [of 4 54 "100000000000000001 / 3" 8333333333333333]
  by (simp add: power_int_def power_one_over)

lemma rd_quotient_2: "round_double 33333333333333334 = 33333333333333336"
  using round_double_tie [of 4 54 33333333333333334 8333333333333333]
  by (simp add: power_int_def power_one_over)

lemma rd_third: "round_double (- (1 / 3)) = - (6004799503160661 / 2 ^ 54)"
  using round_double_nearest [of "1 / 2 ^ 54" "- 2" "- (1 / 3)" "- 6004799503160661"]
  by (simp add: power_int_def power_one_over)

lemma rd_3: "round_double 3 = 3"
  using round_double_nearest [of "1 / 2 ^ 51" 1 3 "3 * 2 ^ 51"]
  by (simp add: power_int_def power_one_over)

lemma rd_minus_3: "round_double (- 3) = - 3"
  using round_double_nearest [of "1 / 2 ^ 51" 1 "- 3" "- (3 * 2 ^ 51)"]
  by (simp add: power_int_def power_one_over)

lemma rd_tiny_quotient:
  "round_double (- (1 / 2 ^ 70) / 3) = - (6004799503160661 / 2 ^ 124)"
  using round_double_nearest [of "1 / 2 ^ 124" "- 72" "- (1 / 2 ^ 70) / 3" "- 6004799503160661"]
  by (simp add: power_int_def power_one_over)

lemma rd_below_3: "round_double (- (1 / 2 ^ 70) + 3) = 3"
  using round_double_nearest [of "1 / 2 ^ 51" 1 "- (1 / 2 ^ 70) + 3" "3 * 2 ^ 51"]
  by (simp add: power_int_def power_one_over)

lemma fl_3: "fl 3 = Finite 3"
  by (rule fl_value [OF rd_3]) simp

lemma fl_minus_3: "fl (- 3) = Finite (- 3)"
  by (rule fl_value [OF rd_minus_3]) simp


text \<open>
  C8, at inputs where the code departs from it. The claim is that for every \<open>y\<close> and
  every nonzero \<open>x\<close> the result of \<open>euclidean_modulo(y, x)\<close> has the sign of \<open>x\<close> and
  lies in \<open>[0, x)\<close> for a positive \<open>x\<close>. Line 25 divides in doubles, also for two
  \<open>int\<close>s. \<open>(10**17 + 1) / 3\<close> rounds to \<open>33333333333333332.0\<close> and the result is
  \<open>5\<close>; \<open>(10**17 + 2) / 3\<close> is a tie that rounds to \<open>33333333333333336.0\<close> and the
  result is \<open>-6\<close>; for \<open>y = -2.0**-70\<close> the floor is \<open>-1\<close> and \<open>y + 3\<close> rounds to
  \<open>3.0\<close>. None of the three is in \<open>[0, 3)\<close>. The particular value of the claim,
  \<open>euclidean_modulo(-1, 3) = 2\<close>, is as claimed.
\<close>

theorem euclidean_modulo_rounded_quotient:
  "euclidean_modulo (PyInt 100000000000000001) (PyInt 3) = Inr (PyInt 5)
   \<and> euclidean_modulo (PyInt 100000000000000002) (PyInt 3) = Inr (PyInt (- 6))
   \<and> euclidean_modulo (PyFloat (Finite (- (1 / 2 ^ 70)))) (PyInt 3) = Inr (PyFloat (Finite 3))
   \<and> euclidean_modulo (PyInt (- 1)) (PyInt 3) = Inr (PyInt 2)"
proof (intro conjI)
  show "euclidean_modulo (PyInt 100000000000000001) (PyInt 3) = Inr (PyInt 5)"
  proof -
    have "fl (100000000000000001 / 3) = Finite 33333333333333332"
      by (rule fl_value [OF rd_quotient_1]) simp
    then have "true_divide (PyInt 100000000000000001) (PyInt 3) = Inr (Finite 33333333333333332)"
      by simp
    then show ?thesis by (simp add: euclidean_modulo_def)
  qed
next
  show "euclidean_modulo (PyInt 100000000000000002) (PyInt 3) = Inr (PyInt (- 6))"
  proof -
    have "fl 33333333333333334 = Finite 33333333333333336"
      by (rule fl_value [OF rd_quotient_2]) simp
    then have "true_divide (PyInt 100000000000000002) (PyInt 3) = Inr (Finite 33333333333333336)"
      by simp
    then show ?thesis by (simp add: euclidean_modulo_def)
  qed
next
  show "euclidean_modulo (PyInt (- 1)) (PyInt 3) = Inr (PyInt 2)"
  proof -
    have "fl (- (1 / 3)) = Finite (- (6004799503160661 / 2 ^ 54))"
      by (rule fl_value [OF rd_third]) simp
    then have "true_divide (PyInt (- 1)) (PyInt 3) = Inr (Finite (- (6004799503160661 / 2 ^ 54)))"
      by simp
    moreover have "\<lfloor>- (6004799503160661 / 2 ^ 54) :: real\<rfloor> = - 1"
      by (simp add: floor_eq_iff)
    ultimately show ?thesis by (simp add: euclidean_modulo_def)
  qed
next
  show "euclidean_modulo (PyFloat (Finite (- (1 / 2 ^ 70)))) (PyInt 3) = Inr (PyFloat (Finite 3))"
  proof -
    have q: "fl (- (1 / 2 ^ 70) / 3) = Finite (- (6004799503160661 / 2 ^ 124))"
      by (rule fl_value [OF rd_tiny_quotient]) simp
    have d: "true_divide (PyFloat (Finite (- (1 / 2 ^ 70)))) (PyInt 3)
               = Inr (Finite (- (6004799503160661 / 2 ^ 124)))"
      using q by (simp add: fl_3 float_div_def)
    have f: "\<lfloor>- (6004799503160661 / 2 ^ 124) :: real\<rfloor> = - 1"
      by (simp add: floor_eq_iff)
    have s: "fl (- (1 / 2 ^ 70) + 3) = Finite 3"
      by (rule fl_value [OF rd_below_3]) simp
    have "subtract (PyFloat (Finite (- (1 / 2 ^ 70)))) (PyInt (- 3)) = Inr (PyFloat (Finite 3))"
      using s by (simp add: fl_minus_3 ieee_sub_def)
    with d f show ?thesis by (simp add: euclidean_modulo_def)
  qed
qed

theorem euclidean_modulo_rounded_quotient_witness:
  "euclidean_modulo (PyInt 100000000000000001) (PyInt 3) \<noteq> Inr (PyInt 2)
   \<and> euclidean_modulo (PyInt 100000000000000002) (PyInt 3) \<noteq> Inr (PyInt 0)"
  using euclidean_modulo_rounded_quotient by simp

text \<open>
  C9. For every real \<open>x\<close>, \<open>asin_safe(x)\<close> and \<open>acos_safe(x)\<close> return a value: what
  reaches \<open>math.asin\<close> and \<open>math.acos\<close> lies in \<open>[-1, 1]\<close>, so their domain error
  is unreachable. Above \<open>1\<close> the results are \<open>arcsin 1 = \<pi>/2\<close> and \<open>arccos 1\<close>,
  below \<open>-1\<close> they are \<open>arcsin (-1)\<close> and \<open>arccos (-1) = \<pi>\<close>; in particular
  \<open>asin_safe(1.0000001) = \<pi>/2\<close> and \<open>acos_safe(-1.0000001) = \<pi>\<close>.
\<close>

theorem safe_inverse_trig_defined:
  "- 1 \<le> max (- 1) (min x 1) \<and> max (- 1) (min x 1) \<le> (1::real)
   \<and> (\<exists>r. asin_safe x = Inr r) \<and> (\<exists>r. acos_safe x = Inr r)
   \<and> (1 < x \<longrightarrow> asin_safe x = Inr (arcsin 1) \<and> arcsin 1 = pi / 2
                \<and> acos_safe x = Inr (arccos 1))
   \<and> (x < - 1 \<longrightarrow> asin_safe x = Inr (arcsin (- 1))
                  \<and> acos_safe x = Inr (arccos (- 1)) \<and> arccos (- 1) = pi)
   \<and> asin_safe 1.0000001 = Inr (pi / 2) \<and> acos_safe (- 1.0000001) = Inr pi"
  by (simp add: asin_safe_def acos_safe_def py_asin_def py_acos_def)

theorem safe_inverse_trig_defined_witness:
  "(1::real) < 2 \<and> asin_safe 2 = Inr (pi / 2) \<and> acos_safe 2 = Inr 0
   \<and> (- 2::real) < - 1 \<and> asin_safe (- 2) = Inr (- (pi / 2)) \<and> acos_safe (- 2) = Inr pi"
  using safe_inverse_trig_defined [of 2] safe_inverse_trig_defined [of "- 2"]
  by simp

section \<open>General lemmas\<close>

lemma asin_safe_eq: "asin_safe x = Inr (arcsin (max (- 1) (min x 1)))"
  by (simp add: asin_safe_def py_asin_def)

lemma acos_safe_eq: "acos_safe x = Inr (arccos (max (- 1) (min x 1)))"
  by (simp add: acos_safe_def py_acos_def)

lemma euclidean_modulo_exact_2pi:
  "euclidean_modulo_exact y (2 * pi) = Inr (y - 2 * pi * of_int \<lfloor>y / (2 * pi)\<rfloor>)"
  by (simp add: euclidean_modulo_exact_value)

lemma bindE_eq_Inl:
  "bindE m f = Inl e \<longleftrightarrow> m = Inl e \<or> (\<exists>x. m = Inr x \<and> f x = Inl e)"
  by (cases m) simp_all

lemma py_div_error: "py_div a b = Inl e \<Longrightarrow> e = ZeroDivisionError"
  by (simp add: py_div_def split: if_splits)

lemma py_sqrt_error: "py_sqrt a = Inl e \<Longrightarrow> e = ValueError"
  by (simp add: py_sqrt_def split: if_splits)

lemma course_angles_error:
  "course_angles lat1 lon1 crs13 lat2 lon2 crs23 = Inl e \<Longrightarrow> e = ValueError \<or> e = ZeroDivisionError"
  unfolding course_angles_def Let_def asin_safe_eq acos_safe_eq euclidean_modulo_exact_2pi
  by (auto simp add: bindE_eq_Inl split: if_splits dest: py_div_error py_sqrt_error)

lemma spherical_triangle_total:
  "\<exists>p. spherical_triangle lat1 lon1 crs13 dst12 ang1 ang2 = Inr p"
  unfolding spherical_triangle_def Let_def asin_safe_eq acos_safe_eq euclidean_modulo_exact_2pi bindE_Inr
  by (rule exI) (rule refl)

lemma intersect_distinct:
  assumes "\<not> (latitude_radians self = latitude_radians l
          \<and> longitude_radians self = longitude_radians l)"
  shows "intersect self (PyLine l) (PyBool suppress) =
     bindE (course_angles (latitude_radians self) (- longitude_radians self)
              (true_bearing_radians self) (latitude_radians l) (- longitude_radians l)
              (true_bearing_radians l))
       (\<lambda>(dst12, ang1, ang2).
          if sin ang1 = 0 \<and> sin ang2 = 0 then
            (if \<not> suppress then Inl InfiniteIntersectionError else Inr None)
          else if sin ang1 * sin ang2 < 0 then
            (if \<not> suppress then Inl AmbiguousIntersectionError else Inr None)
          else
            bindE (spherical_triangle (latitude_radians self) (- longitude_radians self)
                     (true_bearing_radians self) dst12 ang1 ang2)
              (\<lambda>p. Inr (Some p)))"
proof -
  have "\<not> (latitude_radians self = latitude_radians l
          \<and> - longitude_radians self = - longitude_radians l)"
    using assms by simp
  then show ?thesis
    unfolding intersect_def Let_def by (simp only: pyval.case if_False)
qed

lemma equator_line_init:
  "- 180 \<le> lon \<Longrightarrow> lon \<le> 180 \<Longrightarrow>
     BearingLine_init (PyNum 0) (PyNum lon) (PyNum 0) (PyNum 0) = Inr (equator_line lon)"
  by (simp add: BearingLine_init_def latitude_setter_def longitude_setter_def
        bearing_setter_def declination_setter_def radians_def equator_line_def)

lemma equator_line_constructed:
  "- 180 \<le> lon \<Longrightarrow> lon \<le> 180 \<Longrightarrow> constructed (equator_line lon)"
  using equator_line_init [of lon] by (simp add: constructed_def equator_line_def)

lemma equator_line_fields [simp]:
  "latitude_radians (equator_line lon) = 0"
  "longitude_radians (equator_line lon) = lon * pi / 180"
  "true_bearing_radians (equator_line lon) = 0"
  by (simp_all add: equator_line_def radians_def)

lemma arctan_lower_bound:
  assumes "0 \<le> x"
  shows "x - x ^ 3 / 3 \<le> arctan x"
proof -
  have "(\<lambda>t. arctan t - t + t ^ 3 / 3) 0 \<le> (\<lambda>t. arctan t - t + t ^ 3 / 3) x"
  proof (rule DERIV_nonneg_imp_nondecreasing [OF assms])
    fix t :: real
    have "((\<lambda>t. arctan t - t + t ^ 3 / 3) has_real_derivative (1 / (1 + t\<^sup>2) - 1 + t\<^sup>2)) (at t)"
      by (auto intro!: derivative_eq_intros simp add: field_simps)
    moreover have "0 \<le> 1 / (1 + t\<^sup>2) - 1 + t\<^sup>2"
    proof -
      have "1 / (1 + t\<^sup>2) - 1 + t\<^sup>2 = t ^ 4 / (1 + t\<^sup>2)"
        by (simp add: field_simps power2_eq_square power4_eq_xxxx add_nonneg_eq_0_iff)
      then show ?thesis by simp
    qed
    ultimately show "\<exists>y. ((\<lambda>t. arctan t - t + t ^ 3 / 3) has_real_derivative y) (at t) \<and> 0 \<le> y"
      by blast
  qed
  then show ?thesis by simp
qed

lemma arctan_upper_bound:
  assumes "0 \<le> x"
  shows "arctan x \<le> x"
proof -
  have "(\<lambda>t. t - arctan t) 0 \<le> (\<lambda>t. t - arctan t) x"
  proof (rule DERIV_nonneg_imp_nondecreasing [OF assms])
    fix t :: real
    have "((\<lambda>t. t - arctan t) has_real_derivative (1 - 1 / (1 + t\<^sup>2))) (at t)"
      by (auto intro!: derivative_eq_intros simp add: divide_inverse)
    moreover have "0 \<le> 1 - 1 / (1 + t\<^sup>2)"
      by (simp add: field_simps add_nonneg_eq_0_iff)
    ultimately show "\<exists>y. ((\<lambda>t. t - arctan t) has_real_derivative y) (at t) \<and> 0 \<le> y"
      by blast
  qed
  then show ?thesis by simp
qed

lemma pi_lower_bound: "314 / 100 < pi"
proof -
  have a: "1 / 5 - (1 / 5) ^ 3 / 3 \<le> arctan (1 / 5)"
    by (rule arctan_lower_bound) simp
  have b: "arctan (1 / 239) \<le> 1 / 239"
    by (rule arctan_upper_bound) simp
  have "pi = 4 * (4 * arctan (1 / 5) - arctan (1 / 239))"
    using machin by simp
  with a b show ?thesis by (simp add: power3_eq_cube)
qed


section \<open>The solver and the distances at a concrete input\<close>

lemma arcsin_half: "arcsin (1 / 2) = pi / 6"
  using arcsin_sin [of "pi / 6"] by (simp add: sin_30)

lemma arccos_half: "arccos (1 / 2) = pi / 3"
  using arccos_cos [of "pi / 3"] by (simp add: cos_60)

lemma sqrt_quarter: "sqrt (1 / 4) = 1 / 2"
  using real_sqrt_abs [of "1 / 2"] by (simp add: power2_eq_square)

lemma euclidean_modulo_exact_half_pi: "euclidean_modulo_exact (pi / 2) (2 * pi) = Inr (pi / 2)"
proof -
  have "\<lfloor>pi / 2 / (2 * pi)\<rfloor> = 0" by (simp add: floor_eq_iff)
  then show ?thesis by (simp add: euclidean_modulo_exact_2pi)
qed

lemma euclidean_modulo_exact_five_half_pi: "euclidean_modulo_exact (5 * pi / 2) (2 * pi) = Inr (pi / 2)"
proof -
  have "5 * pi / 2 / (2 * pi) = 5 / 4" by simp
  moreover have "\<lfloor>5 / 4 :: real\<rfloor> = 1" by (simp add: floor_eq_iff)
  ultimately show ?thesis by (simp add: euclidean_modulo_exact_2pi)
qed

lemma euclidean_modulo_exact_pi: "euclidean_modulo_exact pi (2 * pi) = Inr pi"
proof -
  have "\<lfloor>pi / (2 * pi)\<rfloor> = 0" by (simp add: floor_eq_iff)
  then show ?thesis by (simp add: euclidean_modulo_exact_2pi)
qed

lemma course_angles_example:
  "course_angles 0 0 0 0 (- (pi / 3)) 0 = Inr (pi / 3, - (pi / 2), - (pi / 2))"
proof -
  have s: "sin (pi / 3) = sqrt 3 / 2" by (rule sin_60)
  have 1: "py_sqrt ((sin ((0 - 0) / 2))\<^sup>2 + cos 0 * cos 0 * (sin ((0 - - (pi / 3)) / 2))\<^sup>2)
             = Inr (1 / 2)"
    by (simp add: py_sqrt_def sin_30 power2_eq_square sqrt_quarter)
  have 2: "asin_safe (1 / 2) = Inr (pi / 6)"
    by (simp add: asin_safe_eq arcsin_half)
  have 3: "sin (- (pi / 3) - 0) < 0" by (simp add: s)
  have 4: "py_div (sin 0 - sin 0 * cos (2 * (pi / 6))) (sin (2 * (pi / 6)) * cos 0) = Inr 0"
    by (simp add: py_div_def s)
  have 5: "acos_safe 0 = Inr (pi / 2)" by (simp add: acos_safe_eq)
  have 6: "0 - pi / 2 + pi = pi / 2" "2 * pi - pi / 2 - 0 + pi = 5 * pi / 2" by simp_all
  show ?thesis
    unfolding course_angles_def 1 bindE_Inr 2 Let_def if_P [OF 3] 4 5 prod.case 6
      euclidean_modulo_exact_half_pi euclidean_modulo_exact_five_half_pi
    by simp
qed

lemma py_round_90: "py_round 90 5 = 90"
  by (simp add: py_round_def Let_def)

lemma py_round_0: "py_round 0 5 = 0"
  by (simp add: py_round_def Let_def)

lemma spherical_triangle_example:
  "spherical_triangle 0 0 0 (pi / 3) (- (pi / 2)) (- (pi / 2)) = Inr (90, 0)"
proof -
  have s: "sin (pi / 3) = sqrt 3 / 2" by (rule sin_60)
  have a: "\<bar>- (pi / 2)\<bar> = pi / 2" by simp
  have 1: "acos_safe (- cos (pi / 2) * cos (pi / 2) + sin (pi / 2) * sin (pi / 2) * cos (pi / 3))
            = Inr (pi / 3)"
    by (simp add: acos_safe_eq cos_60 arccos_half)
  have 2: "atan2 (sin (pi / 3) * sin (pi / 2) * sin (pi / 2))
             (cos (pi / 2) + cos (pi / 2) * cos (pi / 3)) = pi / 2"
    by (simp add: atan2_def s)
  have 3: "asin_safe (sin 0 * cos (pi / 2) + cos 0 * sin (pi / 2) * cos 0) = Inr (pi / 2)"
    by (simp add: asin_safe_eq)
  have 4: "atan2 (sin 0 * sin (pi / 2) * cos 0) (cos (pi / 2) - sin 0 * sin (pi / 2)) = 0"
    by (simp add: atan2_def)
  have 5: "0 - 0 + pi = pi" by simp
  have 6: "degrees (pi / 2) = 90" "degrees (- (pi - pi)) = 0" by (simp_all add: degrees_def)
  show ?thesis
    unfolding spherical_triangle_def Let_def a 1 bindE_Inr 2 3 4 5 euclidean_modulo_exact_pi 6
      py_round_90 py_round_0
    by (rule refl)
qed

lemma intersect_example:
  "intersect (equator_line 0) (PyLine (equator_line 60)) (PyBool suppress) = Inr (Some (90, 0))"
proof -
  have d: "\<not> (latitude_radians (equator_line 0) = latitude_radians (equator_line 60)
         \<and> longitude_radians (equator_line 0) = longitude_radians (equator_line 60))"
    by simp
  have f: "longitude_radians (equator_line 0) = 0" "longitude_radians (equator_line 60) = pi / 3"
    by simp_all
  have m: "- (0::real) = 0" by simp
  have n: "\<not> (sin (- (pi / 2)) = 0 \<and> sin (- (pi / 2)) = 0)"
    "\<not> sin (- (pi / 2)) * sin (- (pi / 2)) < 0" by simp_all
  show ?thesis
    unfolding intersect_distinct [OF d] equator_line_fields(1,3) f m course_angles_example
      bindE_Inr prod.case if_not_P [OF n(1)] if_not_P [OF n(2)] spherical_triangle_example
    by (rule refl)
qed

lemma haversine_km_total:
  assumes "0 \<le> cos lat1 * cos lat2"
  shows "\<exists>d. haversine_km lat1 lon1 lat2 lon2 = Inr d"
proof -
  define h where "h = (sin ((lat2 - lat1) / 2))\<^sup>2
                      + cos lat1 * cos lat2 * (sin ((lon2 - lon1) / 2))\<^sup>2"
  have "0 \<le> cos lat1 * cos lat2 * (sin ((lon2 - lon1) / 2))\<^sup>2"
    using assms by (rule mult_nonneg_nonneg) simp
  then have "0 \<le> h" unfolding h_def by simp
  then have 0: "0 \<le> min 1 h" by simp
  have "sqrt (min 1 h) \<le> sqrt 1" by (rule real_sqrt_le_mono) simp
  then have 1: "sqrt (min 1 h) \<le> 1" by simp
  have 2: "- 1 \<le> sqrt (min 1 h)" using 0 by (meson order_trans real_sqrt_ge_zero le_minus_one_simps(1))
  have "haversine_km lat1 lon1 lat2 lon2 = Inr (2 * 6371 * arcsin (sqrt (min 1 h)))"
    unfolding haversine_km_def Let_def h_def [symmetric] using 0 1 2
    by (simp add: py_sqrt_def py_asin_def)
  then show ?thesis by blast
qed

lemma haversine_km_of_sin:
  assumes "0 \<le> x" and "x \<le> pi / 2"
    and "(sin ((lat2 - lat1) / 2))\<^sup>2 + cos lat1 * cos lat2 * (sin ((lon2 - lon1) / 2))\<^sup>2
           = (sin x)\<^sup>2"
  shows "haversine_km lat1 lon1 lat2 lon2 = Inr (12742 * x)"
proof -
  have s0: "0 \<le> sin x" using assms(1,2) by (intro sin_ge_zero) (use pi_ge_two in linarith)+
  have s1: "sin x \<le> 1" by simp
  have "(sin x)\<^sup>2 \<le> 1" using s0 s1 by (simp add: power_le_one)
  then have m: "min 1 ((sin x)\<^sup>2) = (sin x)\<^sup>2" by simp
  have r: "sqrt ((sin x)\<^sup>2) = sin x" using s0 by simp
  have a: "arcsin (sin x) = x" using assms(1,2) by (intro arcsin_sin) (use pi_ge_two in linarith)+
  show ?thesis
    unfolding haversine_km_def Let_def assms(3) m using s0 s1
    by (simp add: py_sqrt_def py_asin_def r a del: real_sqrt_abs)
qed

lemma cos_radians_nonneg:
  assumes "- 90 \<le> a" and "a \<le> 90"
  shows "0 \<le> cos (radians a)"
proof -
  have "- 90 * pi \<le> a * pi" using assms(1) by (intro mult_right_mono) simp_all
  moreover have "a * pi \<le> 90 * pi" using assms(2) by (intro mult_right_mono) simp_all
  ultimately show ?thesis unfolding radians_def by (intro cos_ge_zero) simp_all
qed

lemma constructed_latitude:
  assumes "constructed l"
  shows "0 \<le> cos (latitude_radians l)"
proof -
  from assms obtain la lo b d where
    la: "latitude_setter (PyNum (latitude l)) = Inr la" and
    l: "l = \<lparr>latitude = la, longitude = lo,
            latitude_radians = radians la, longitude_radians = radians lo,
            bearing = b, declination = d,
            true_bearing = b + d, true_bearing_radians = radians (b + d)\<rparr>"
    unfolding constructed_def BearingLine_init_def
    by (auto simp add: bindE_def split: sum.splits)
  from la have "- 90 \<le> la \<and> la \<le> 90"
    by (simp add: latitude_setter_def split: if_splits)
  moreover have "latitude_radians l = radians la" by (subst l) simp
  ultimately show ?thesis by (simp add: cos_radians_nonneg)
qed


lemma distance_pole_from_0:
  "get_haversine_distance (equator_line 0) (PyNum 90) (PyNum 0) PyNone = Inr (12742 * (pi / 4))"
proof -
  have a: "haversine_arguments (equator_line 0) (PyNum 90) (PyNum 0) PyNone
             = Inr (Some (0, 0, pi / 2, 0))"
    by (simp add: haversine_arguments_def radians_def)
  have "haversine_km 0 0 (pi / 2) 0 = Inr (12742 * (pi / 4))"
    by (rule haversine_km_of_sin) (use pi_ge_two in simp_all)
  with a show ?thesis by (simp add: get_haversine_distance_def)
qed

lemma distance_pole_from_60:
  "get_haversine_distance (equator_line 60) (PyNum 90) (PyNum 0) PyNone
     = Inr (12742 * (pi / 4))"
proof -
  have a: "haversine_arguments (equator_line 60) (PyNum 90) (PyNum 0) PyNone
             = Inr (Some (0, pi / 3, pi / 2, 0))"
    by (simp add: haversine_arguments_def radians_def)
  have "haversine_km 0 (pi / 3) (pi / 2) 0 = Inr (12742 * (pi / 4))"
    by (rule haversine_km_of_sin) (use pi_ge_two in simp_all)
  with a show ?thesis by (simp add: get_haversine_distance_def)
qed

lemma distance_0_to_60:
  "get_haversine_distance (equator_line 0) PyNone PyNone (PyLine (equator_line 60))
     = Inr (12742 * (pi / 6))"
proof -
  have a: "haversine_arguments (equator_line 0) PyNone PyNone (PyLine (equator_line 60))
             = Inr (Some (0, 0, 0, pi / 3))"
    by (simp add: haversine_arguments_def)
  have "haversine_km 0 0 0 (pi / 3) = Inr (12742 * (pi / 6))"
    by (rule haversine_km_of_sin) (use pi_ge_two in simp_all)
  with a show ?thesis by (simp add: get_haversine_distance_def)
qed

lemma example_distances:
  "10000 < 12742 * (pi / 4)" "12742 * (pi / 6) < 10000" "12742 * (pi / 4) < 20000"
  using pi_lower_bound pi_less_4 by simp_all


section \<open>The raw solver \<open>_intersect\<close>\<close>

text \<open>
  C2. Where the two origins have the same latitude and the same longitude in radians,
  \<open>_intersect\<close> raises \<open>IdenticalInputPointError\<close> when \<open>suppress_errors\<close> is
  false and returns \<open>None\<close> when it is true. Where the origins differ in radians,
  \<open>IdenticalInputPointError\<close> is never raised.
\<close>

theorem identical_origins:
  "(latitude_radians self = latitude_radians l \<and> longitude_radians self = longitude_radians l
      \<longrightarrow> intersect self (PyLine l) (PyBool suppress)
          = (if suppress then Inr None else Inl IdenticalInputPointError))
   \<and> (\<not> (latitude_radians self = latitude_radians l
          \<and> longitude_radians self = longitude_radians l)
      \<longrightarrow> intersect self (PyLine l) (PyBool suppress) \<noteq> Inl IdenticalInputPointError)"
proof (intro conjI impI)
  assume "latitude_radians self = latitude_radians l \<and> longitude_radians self = longitude_radians l"
  then show "intersect self (PyLine l) (PyBool suppress)
          = (if suppress then Inr None else Inl IdenticalInputPointError)"
    unfolding intersect_def Let_def by simp
next
  let ?ca = "course_angles (latitude_radians self) (- longitude_radians self)
     (true_bearing_radians self) (latitude_radians l) (- longitude_radians l) (true_bearing_radians l)"
  assume d: "\<not> (latitude_radians self = latitude_radians l
          \<and> longitude_radians self = longitude_radians l)"
  show "intersect self (PyLine l) (PyBool suppress) \<noteq> Inl IdenticalInputPointError"
  proof (cases ?ca)
    case (Inl e)
    then have "e = ValueError \<or> e = ZeroDivisionError" by (rule course_angles_error)
    with Inl show ?thesis unfolding intersect_distinct [OF d] by auto
  next
    case (Inr t)
    obtain dst12 ang1 ang2 where t: "t = (dst12, ang1, ang2)" by (cases t) auto
    obtain p where "spherical_triangle (latitude_radians self) (- longitude_radians self)
        (true_bearing_radians self) dst12 ang1 ang2 = Inr p"
      using spherical_triangle_total by blast
    with Inr t show ?thesis unfolding intersect_distinct [OF d] by simp
  qed
qed

theorem identical_origins_witness:
  "intersect (equator_line 0) (PyLine (equator_line 0)) (PyBool False)
     = Inl IdenticalInputPointError
   \<and> intersect (equator_line 0) (PyLine (equator_line 0)) (PyBool True) = Inr None
   \<and> longitude_radians (equator_line 0) \<noteq> longitude_radians (equator_line 60)
   \<and> intersect (equator_line 0) (PyLine (equator_line 60)) (PyBool False)
     \<noteq> Inl IdenticalInputPointError"
  using identical_origins [of "equator_line 0" "equator_line 0" False]
    identical_origins [of "equator_line 0" "equator_line 0" True]
    identical_origins [of "equator_line 0" "equator_line 60" False]
  by simp

text \<open>
  The order of the degeneracy checks of lines 231 to 244. For two lines with distinct
  origins on which the computation of \<open>dst12\<close>, \<open>crs12\<close>, \<open>crs21\<close>, \<open>ang1\<close> and
  \<open>ang2\<close> returns: if \<open>sin(ang1)\<close> and \<open>sin(ang2)\<close> are both zero, \<open>_intersect\<close>
  raises \<open>InfiniteIntersectionError\<close> (or returns \<open>None\<close> when \<open>suppress_errors\<close> is
  set); otherwise, if \<open>sin(ang1) * sin(ang2) < 0\<close> it raises
  \<open>AmbiguousIntersectionError\<close> (or returns \<open>None\<close> when suppressed); otherwise the
  spherical triangle is solved and its intersection is returned.
\<close>

theorem degeneracy_checks_in_order:
  assumes "\<not> (latitude_radians self = latitude_radians l
             \<and> longitude_radians self = longitude_radians l)"
    and "course_angles (latitude_radians self) (- longitude_radians self)
           (true_bearing_radians self) (latitude_radians l) (- longitude_radians l)
           (true_bearing_radians l) = Inr (dst12, ang1, ang2)"
  shows "\<exists>p. spherical_triangle (latitude_radians self) (- longitude_radians self)
               (true_bearing_radians self) dst12 ang1 ang2 = Inr p
           \<and> intersect self (PyLine l) (PyBool suppress) =
               (if sin ang1 = 0 \<and> sin ang2 = 0 then
                  (if suppress then Inr None else Inl InfiniteIntersectionError)
                else if sin ang1 * sin ang2 < 0 then
                  (if suppress then Inr None else Inl AmbiguousIntersectionError)
                else Inr (Some p))"
proof -
  obtain p where p: "spherical_triangle (latitude_radians self) (- longitude_radians self)
        (true_bearing_radians self) dst12 ang1 ang2 = Inr p"
    using spherical_triangle_total by blast
  have "intersect self (PyLine l) (PyBool suppress) =
               (if sin ang1 = 0 \<and> sin ang2 = 0 then
                  (if suppress then Inr None else Inl InfiniteIntersectionError)
                else if sin ang1 * sin ang2 < 0 then
                  (if suppress then Inr None else Inl AmbiguousIntersectionError)
                else Inr (Some p))"
    unfolding intersect_distinct [OF assms(1)] assms(2) by (simp add: p)
  with p show ?thesis by blast
qed

theorem degeneracy_checks_in_order_witness:
  "\<not> (latitude_radians (equator_line 0) = latitude_radians (equator_line 60)
       \<and> longitude_radians (equator_line 0) = longitude_radians (equator_line 60))
   \<and> course_angles 0 0 0 0 (- (pi / 3)) 0 = Inr (pi / 3, - (pi / 2), - (pi / 2))
   \<and> sin (- (pi / 2)) \<noteq> 0 \<and> \<not> sin (- (pi / 2)) * sin (- (pi / 2)) < 0
   \<and> intersect (equator_line 0) (PyLine (equator_line 60)) (PyBool False)
       = Inr (Some (90, 0))"
proof -
  have d: "\<not> (latitude_radians (equator_line 0) = latitude_radians (equator_line 60)
         \<and> longitude_radians (equator_line 0) = longitude_radians (equator_line 60))"
    by simp
  have c: "course_angles (latitude_radians (equator_line 0)) (- longitude_radians (equator_line 0))
           (true_bearing_radians (equator_line 0)) (latitude_radians (equator_line 60))
           (- longitude_radians (equator_line 60))
           (true_bearing_radians (equator_line 60)) = Inr (pi / 3, - (pi / 2), - (pi / 2))"
    using course_angles_example by simp
  from degeneracy_checks_in_order [OF d c, of False] d course_angles_example
  show ?thesis by (simp add: spherical_triangle_example)
qed

section \<open>The raw solver on doubles\<close>

subsection \<open>Bounds on rounding\<close>

lemma two_powi_floor_log_le:
  assumes "0 < a"
  shows "(2::real) powi \<lfloor>log 2 a\<rfloor> \<le> a"
proof -
  have "(2::real) powr (of_int \<lfloor>log 2 a\<rfloor>) \<le> 2 powr (log 2 a)"
    by (rule powr_mono) simp_all
  also have "\<dots> = a" using assms by simp
  finally show ?thesis by (simp only: two_powr_int)
qed

lemma floor_log2_less:
  assumes "0 < a" and "a < 2 powi k"
  shows "\<lfloor>log 2 a\<rfloor> < k"
proof -
  have "a < 2 powr (of_int k)" using assms(2) by (simp only: two_powr_int)
  then have "log 2 a < of_int k" using assms(1) by (simp add: log_less_iff)
  then show ?thesis by (simp add: floor_less_iff)
qed

lemma floor_log2_ge:
  assumes "2 powi k \<le> a"
  shows "k \<le> \<lfloor>log 2 a\<rfloor>"
proof -
  have pos: "0 < a" using assms two_powi_pos [of k] by linarith
  have "2 powr (of_int k) \<le> a" using assms by (simp only: two_powr_int)
  then have "of_int k \<le> log 2 a" using pos by (simp add: le_log_iff)
  then show ?thesis by (simp add: le_floor_iff)
qed

lemma round_half_even_close: "\<bar>of_int (round_half_even q) - q\<bar> \<le> 1 / 2"
proof -
  have "of_int \<lfloor>q\<rfloor> \<le> q" "q < of_int \<lfloor>q\<rfloor> + 1" by linarith+
  then show ?thesis
    by (auto simp add: round_half_even_def Let_def)
qed

lemma two_powi_split: "(2::real) powi (a + b) = 2 powi a * 2 powi b"
  by (rule power_int_add) simp

lemma two_powi_mono: "a \<le> b \<Longrightarrow> (2::real) powi a \<le> 2 powi b"
  by (rule power_int_increasing) simp_all

lemma two_powi_strict_mono: "a < b \<Longrightarrow> (2::real) powi a < 2 powi b"
  by (rule power_int_strict_increasing) simp_all

lemma ulp_exponent_below_normal:
  assumes "r \<noteq> 0" and "\<bar>r\<bar> < 2 powi (- 1022)"
  shows "ulp_exponent r = - 1074"
proof -
  have "\<lfloor>log 2 \<bar>r\<bar>\<rfloor> < - 1022"
    by (rule floor_log2_less) (use assms in simp_all)
  then show ?thesis by (simp add: ulp_exponent_def)
qed

lemma ulp_exponent_at_normal:
  assumes "2 powi (- 1022) \<le> \<bar>r\<bar>"
  shows "ulp_exponent r = \<lfloor>log 2 \<bar>r\<bar>\<rfloor> - 52"
proof -
  have "- 1022 \<le> \<lfloor>log 2 \<bar>r\<bar>\<rfloor>"
    by (rule floor_log2_ge) (rule assms)
  then show ?thesis by (simp add: ulp_exponent_def)
qed

lemma ulp_le_abs:
  assumes "2 powi (- 1022) \<le> \<bar>r\<bar>"
  shows "2 powi ulp_exponent r \<le> \<bar>r\<bar>"
proof -
  have pos: "0 < \<bar>r\<bar>" using assms two_powi_pos [of "- 1022"] by linarith
  have "(2::real) powi ulp_exponent r \<le> 2 powi \<lfloor>log 2 \<bar>r\<bar>\<rfloor>"
    unfolding ulp_exponent_at_normal [OF assms] by (rule two_powi_mono) simp
  also have "\<dots> \<le> \<bar>r\<bar>" by (rule two_powi_floor_log_le [OF pos])
  finally show ?thesis .
qed

lemma round_double_error:
  assumes "r \<noteq> 0"
  shows "\<bar>round_double r - r\<bar> \<le> 2 powi ulp_exponent r / 2"
proof -
  define u :: real where "u = 2 powi ulp_exponent r"
  define n where "n = round_half_even (r / u)"
  have u: "0 < u" unfolding u_def by (rule two_powi_pos)
  have rd: "round_double r = of_int n * u"
    using assms by (simp add: round_double_def n_def u_def)
  have "of_int n * u - r = (of_int n - r / u) * u"
    using u by (simp add: field_simps)
  then have "\<bar>of_int n * u - r\<bar> = \<bar>of_int n - r / u\<bar> * u"
    using u by (simp add: abs_mult)
  also have "\<dots> \<le> 1 / 2 * u"
    unfolding n_def using u by (intro mult_right_mono round_half_even_close) simp
  finally show ?thesis unfolding rd u_def by simp
qed

lemma round_double_abs_le: "\<bar>round_double r\<bar> \<le> 2 * \<bar>r\<bar> + 2 powi (- 1074)"
proof (cases "r = 0")
  case True
  then show ?thesis using two_powi_pos [of "- 1074"] by (simp add: round_double_def)
next
  case False
  have ulp: "2 powi ulp_exponent r \<le> \<bar>r\<bar> + 2 powi (- 1074)"
  proof (cases "2 powi (- 1022) \<le> \<bar>r\<bar>")
    case True
    then show ?thesis using ulp_le_abs [of r] two_powi_pos [of "- 1074"] by linarith
  next
    case False
    then have "ulp_exponent r = - 1074"
      using \<open>r \<noteq> 0\<close> by (intro ulp_exponent_below_normal) simp_all
    then show ?thesis by simp
  qed
  from round_double_error [OF False] ulp show ?thesis by linarith
qed

lemma round_double_abs_ge:
  assumes "2 powi (- 1022) \<le> \<bar>r\<bar>"
  shows "\<bar>r\<bar> / 2 \<le> \<bar>round_double r\<bar>"
proof -
  have "r \<noteq> 0" using assms two_powi_pos [of "- 1022"] by auto
  from round_double_error [OF this] ulp_le_abs [OF assms] show ?thesis by linarith
qed

lemma round_double_underflow:
  assumes "\<bar>r\<bar> < 2 powi (- 1075)"
  shows "round_double r = 0"
proof (cases "r = 0")
  case True
  then show ?thesis by (simp add: round_double_def)
next
  case False
  define u :: real where "u = 2 powi (- 1074)"
  have u: "0 < u" unfolding u_def by (rule two_powi_pos)
  have half: "(2::real) powi (- 1075) = u * (1 / 2)"
    unfolding u_def using two_powi_split [of "- 1074" "- 1"] by simp
  have "(2::real) powi (- 1075) \<le> 2 powi (- 1022)" by (rule two_powi_mono) simp
  then have e: "ulp_exponent r = - 1074"
    using assms False by (intro ulp_exponent_below_normal) simp_all
  have "\<bar>r\<bar> < u * (1 / 2)" using assms half by simp
  then have "\<bar>r / u\<bar> < 1 / 2" using u by (simp add: field_simps abs_if split: if_splits)
  then have "- (1 / 2) < r / u" and "r / u < 1 / 2" by linarith+
  then have "of_int 0 - 1 / 2 < r / u" and "r / u < of_int 0 + 1 / 2" by simp_all
  then have "round_half_even (r / u) = 0"
    by (rule round_half_even_nearest)
  then show ?thesis using False by (simp add: round_double_def e u_def)
qed

subsection \<open>Two origins closer than the arithmetic resolves\<close>

lemma fl_zero: "fl 0 = Finite 0"
  by (simp add: fl_def round_double_def)

lemma tiny_le_one: "(2::real) powi (- 1074) \<le> 1"
proof -
  have "(2::real) powi (- 1074) \<le> 2 powi 0" by (rule two_powi_mono) simp
  also have "(2::real) powi 0 = 1" by simp
  finally show ?thesis .
qed

lemma fl_moderate:
  assumes "\<bar>r\<bar> \<le> 2 ^ 10"
  shows "fl r = Finite (round_double r)"
proof -
  have a: "(2::real) ^ 10 = 1024" by simp
  have "(2::real) ^ 12 < 2 ^ 1024" by (rule power_strict_increasing) simp_all
  moreover have "(2::real) ^ 12 = 4096" by simp
  ultimately have b: "(4096::real) < 2 ^ 1024" by simp
  from round_double_abs_le [of r] tiny_le_one assms a b
  have "\<bar>round_double r\<bar> < 2 ^ 1024" by linarith
  then show ?thesis by (rule fl_finite)
qed

lemma fl_underflow:
  assumes "\<bar>r\<bar> < 2 powi (- 1075)"
  shows "fl r = Finite 0"
  by (simp add: fl_def round_double_underflow [OF assms])

lemma fl_one_finite: "\<exists>c. fl 1 = Finite c"
  using fl_moderate [of 1] by simp

lemma distance_double_underflow:
  assumes "\<bar>t\<bar> \<le> 2 powi (- 600)"
  shows "distance_double (Finite 0) (Finite 0) (Finite t) (Finite 0) = Inr (Finite 0)"
proof -
  define eps :: real where "eps = 2 powi (- 1074)"
  define B :: real where "B = 2 powi (- 600)"
  have eps: "eps \<le> B" unfolding eps_def B_def by (rule two_powi_mono) simp
  have B: "0 < B" "B \<le> 1"
  proof -
    show "0 < B" unfolding B_def by (rule two_powi_pos)
    have "(2::real) powi (- 600) \<le> 2 powi 0" by (rule two_powi_mono) simp
    also have "(2::real) powi 0 = 1" by simp
    finally show "B \<le> 1" unfolding B_def .
  qed
  have big: "(1::real) \<le> 2 ^ 10" by simp
  have t: "\<bar>t\<bar> \<le> B" using assms unfolding B_def .
  define u where "u = round_double (- t)"
  define v where "v = round_double (u / 2)"
  define w where "w = round_double (sin v)"
  have u: "\<bar>u\<bar> \<le> 2 * \<bar>t\<bar> + eps"
    unfolding u_def eps_def using round_double_abs_le [of "- t"] by simp
  have v: "\<bar>v\<bar> \<le> \<bar>u\<bar> + eps"
    unfolding v_def eps_def using round_double_abs_le [of "u / 2"] by simp
  have w: "\<bar>w\<bar> \<le> 2 * \<bar>v\<bar> + eps"
    unfolding w_def eps_def
    using round_double_abs_le [of "sin v"] abs_sin_x_le_abs_x [of v] by linarith
  have w16: "\<bar>w\<bar> \<le> 16 * B" using u v w t eps B by linarith
  have step1: "ieee_sub (Finite 0) (Finite t) = Finite u"
    unfolding u_def ieee_sub_def using fl_moderate [of "- t"] t B big by simp
  have step2: "fl (u / 2) = Finite v"
    unfolding v_def using fl_moderate [of "u / 2"] u t eps B big by simp
  have step3: "fl (sin v) = Finite w"
    unfolding w_def using fl_moderate [of "sin v"] abs_sin_le_one [of v] big by simp
  have sixteen: "16 * B = 2 powi (- 596)"
  proof -
    have "(2::real) powi (4 + - 600) = 2 powi 4 * 2 powi (- 600)" by (rule two_powi_split)
    moreover have "(2::real) powi 4 = 16" by simp
    moreover have "(4::int) + - 600 = - 596" by simp
    ultimately show ?thesis unfolding B_def by simp
  qed
  have "\<bar>w * w\<bar> = \<bar>w\<bar> * \<bar>w\<bar>" by (rule abs_mult)
  also have "\<dots> \<le> (16 * B) * (16 * B)"
    using w16 by (intro mult_mono) simp_all
  also have "\<dots> = 2 powi (- 596 + - 596)"
    unfolding sixteen by (rule two_powi_split [symmetric])
  also have "\<dots> < 2 powi (- 1075)" by (rule two_powi_strict_mono) simp
  finally have step4: "fl (w * w) = Finite 0" by (rule fl_underflow)
  obtain c1 where c1: "fl 1 = Finite c1" using fl_one_finite by blast
  have c1b: "\<bar>c1\<bar> \<le> 3"
    using c1 fl_moderate [of 1] round_double_abs_le [of 1] tiny_le_one by simp
  define c2 where "c2 = round_double (cos t)"
  have c2: "fl (cos t) = Finite c2"
    unfolding c2_def using fl_moderate [of "cos t"] abs_cos_le_one [of t] big by simp
  have c2b: "\<bar>c2\<bar> \<le> 3"
    unfolding c2_def using round_double_abs_le [of "cos t"] abs_cos_le_one [of t] tiny_le_one
    by linarith
  have "\<bar>c1 * c2\<bar> = \<bar>c1\<bar> * \<bar>c2\<bar>" by (rule abs_mult)
  also have "\<dots> \<le> 3 * 3" using c1b c2b by (intro mult_mono) simp_all
  finally have "\<bar>c1 * c2\<bar> \<le> 2 ^ 10" by simp
  then have step5: "fl (c1 * c2) = Finite (round_double (c1 * c2))"
    using fl_moderate [of "c1 * c2"] by simp
  have step6: "ieee_sub (Finite 0) (Finite 0) = Finite 0"
    by (simp add: ieee_sub_def fl_zero)
  show ?thesis
    by (simp add: distance_double_def step1 step2 step3 step4 step5 step6 c1 c2 fl_zero
        asin_safe_double_def clamp_def Let_def)
qed

lemma course_quotient_zero_division:
  "course_quotient (Finite 0) (Finite t) (Finite 0) = Inl ZeroDivisionError"
proof -
  obtain c1 where c1: "fl 1 = Finite c1" using fl_one_finite by blast
  show ?thesis
    by (simp add: course_quotient_def c1 fl_zero float_div_def)
qed

lemma courses_double_zero_division:
  "courses_double (Finite 0) (Finite 0) (Finite t) (Finite 0) (Finite 0) = Inl ZeroDivisionError"
  by (simp add: courses_double_def Let_def ieee_sub_def fl_zero course_quotient_zero_division)

lemma intersect_double_zero_division:
  assumes "t \<noteq> 0" and "\<bar>t\<bar> \<le> 2 powi (- 600)"
  shows "intersect_double \<lparr>latitude_radians' = Finite 0, longitude_radians' = Finite 0, true_bearing_radians' = a\<rparr>
           \<lparr>latitude_radians' = Finite t, longitude_radians' = Finite 0, true_bearing_radians' = b\<rparr> suppress_errors
         = Inl ZeroDivisionError"
  using assms(1)
  by (simp add: intersect_double_def Let_def double_eq_def
      distance_double_underflow [OF assms(2)] courses_double_zero_division)

lemma degToRad_bounds: "\<exists>D. degToRad = Finite D \<and> 1 / 512 \<le> \<bar>D\<bar> \<and> \<bar>D\<bar> \<le> 2"
proof -
  define P where "P = round_double pi"
  define D where "D = round_double (P / 180)"
  have pi: "2 \<le> pi" "pi < 4" by (rule pi_ge_two, rule pi_less_4)
  have big: "(2::real) ^ 10 = 1024" by simp
  have n0: "(2::real) powi (- 1022) \<le> 1"
  proof -
    have "(2::real) powi (- 1022) \<le> 2 powi 0" by (rule two_powi_mono) simp
    also have "(2::real) powi 0 = 1" by simp
    finally show ?thesis .
  qed
  have n8: "(2::real) powi (- 1022) \<le> 1 / 256"
  proof -
    have "(2::real) powi (- 1022) \<le> 2 powi (- 8)" by (rule two_powi_mono) simp
    also have "(2::real) powi (- 8) = 1 / 256" by (simp add: power_int_minus)
    finally show ?thesis .
  qed
  have P: "fl pi = Finite P"
    unfolding P_def using fl_moderate [of pi] pi big by simp
  have Pl: "1 \<le> \<bar>P\<bar>"
    unfolding P_def using round_double_abs_ge [of pi] n0 pi by simp
  have Pu: "\<bar>P\<bar> \<le> 9"
    unfolding P_def using round_double_abs_le [of pi] tiny_le_one pi by simp
  have q: "\<bar>P / 180\<bar> = \<bar>P\<bar> / 180" by simp
  have D: "fl (P / 180) = Finite D"
    unfolding D_def using fl_moderate [of "P / 180"] Pu big q by simp
  have "2 powi (- 1022) \<le> \<bar>P / 180\<bar>" using n8 Pl q by linarith
  then have "\<bar>P / 180\<bar> / 2 \<le> \<bar>D\<bar>" unfolding D_def by (rule round_double_abs_ge)
  then have Dl: "1 / 512 \<le> \<bar>D\<bar>" using Pl q by linarith
  have Du: "\<bar>D\<bar> \<le> 2"
    unfolding D_def using round_double_abs_le [of "P / 180"] tiny_le_one Pu q by linarith
  have "degToRad = Finite D" by (simp add: degToRad_def math_pi_def P D)
  then show ?thesis using Dl Du by blast
qed

lemma math_radians_zero: "math_radians (PyInt 0) = Inr (Finite 0)"
proof -
  obtain D where D: "degToRad = Finite D" using degToRad_bounds by blast
  show ?thesis by (simp add: math_radians_def fl_zero D)
qed

lemma math_radians_tiny:
  assumes "2 powi (- 1000) \<le> \<bar>L\<bar>" and "\<bar>L\<bar> \<le> 2 powi (- 610)"
  shows "\<exists>t. math_radians (PyFloat (Finite L)) = Inr (Finite t) \<and> t \<noteq> 0 \<and> \<bar>t\<bar> \<le> 2 powi (- 600)"
proof -
  obtain D where D: "degToRad = Finite D" and Dl: "1 / 512 \<le> \<bar>D\<bar>" and Du: "\<bar>D\<bar> \<le> 2"
    using degToRad_bounds by blast
  define lo :: real where "lo = 2 powi (- 1000)"
  define hi :: real where "hi = 2 powi (- 610)"
  define t where "t = round_double (L * D)"
  have L: "lo \<le> \<bar>L\<bar>" "\<bar>L\<bar> \<le> hi" using assms unfolding lo_def hi_def .
  have lo: "0 < lo" unfolding lo_def by (rule two_powi_pos)
  have hi1: "hi \<le> 1"
  proof -
    have "(2::real) powi (- 610) \<le> 2 powi 0" by (rule two_powi_mono) simp
    also have "(2::real) powi 0 = 1" by simp
    finally show ?thesis unfolding hi_def .
  qed
  have m: "\<bar>L * D\<bar> = \<bar>L\<bar> * \<bar>D\<bar>" by (rule abs_mult)
  have up: "\<bar>L * D\<bar> \<le> hi * 2"
    unfolding m using L Du by (intro mult_mono) simp_all
  have "lo * (1 / 512) \<le> \<bar>L\<bar> * \<bar>D\<bar>"
    using L Dl lo by (intro mult_mono) simp_all
  then have low: "lo / 512 \<le> \<bar>L * D\<bar>" unfolding m by simp
  have "(2::real) powi (- 1000 + - 9) = 2 powi (- 1000) * 2 powi (- 9)" by (rule two_powi_split)
  moreover have "(2::real) powi (- 9) = 1 / 512" by (simp add: power_int_minus)
  ultimately have "lo / 512 = 2 powi (- 1009)" unfolding lo_def by simp
  moreover have "(2::real) powi (- 1022) \<le> 2 powi (- 1009)" by (rule two_powi_mono) simp
  ultimately have normal: "2 powi (- 1022) \<le> \<bar>L * D\<bar>" using low by linarith
  have pos: "0 < \<bar>L * D\<bar>" using low lo by linarith
  have "\<bar>L * D\<bar> / 2 \<le> \<bar>t\<bar>" unfolding t_def by (rule round_double_abs_ge [OF normal])
  then have t0: "t \<noteq> 0" using pos by auto
  have "(2::real) powi (- 610 + 2) = 2 powi (- 610) * 2 powi 2" by (rule two_powi_split)
  moreover have "(2::real) powi 2 = 4" by simp
  ultimately have h4: "hi * 4 = 2 powi (- 608)" unfolding hi_def by simp
  have e: "(2::real) powi (- 1074) \<le> 2 powi (- 608)" by (rule two_powi_mono) simp
  have "(2::real) powi (- 608 + 1) = 2 powi (- 608) * 2 powi 1" by (rule two_powi_split)
  moreover have "(2::real) powi 1 = 2" by simp
  ultimately have d: "2 * 2 powi (- 608) = (2::real) powi (- 607)" by simp
  have "(2::real) powi (- 607) \<le> 2 powi (- 600)" by (rule two_powi_mono) simp
  then have tb: "\<bar>t\<bar> \<le> 2 powi (- 600)"
    unfolding t_def using round_double_abs_le [of "L * D"] up h4 e d by linarith
  have "\<bar>L * D\<bar> \<le> 2 ^ 10" using up hi1 by simp
  then have "fl (L * D) = Finite t" unfolding t_def by (rule fl_moderate)
  then have "math_radians (PyFloat (Finite L)) = Inr (Finite t)"
    by (simp add: math_radians_def D)
  then show ?thesis using t0 tb by blast
qed

lemma BearingLine_init_double_origin:
  "BearingLine_init_double (PyInt 0) (PyInt 0) (PyInt 0) (PyInt 0)
   = Inr \<lparr>latitude_radians' = Finite 0, longitude_radians' = Finite 0, true_bearing_radians' = Finite 0\<rparr>"
  by (simp add: BearingLine_init_double_def math_radians_zero)

lemma BearingLine_init_double_tiny:
  assumes "2 powi (- 1000) \<le> \<bar>L\<bar>" and "\<bar>L\<bar> \<le> 2 powi (- 610)"
  shows "\<exists>t. BearingLine_init_double (PyFloat (Finite L)) (PyInt 0) (PyInt 0) (PyInt 0)
               = Inr \<lparr>latitude_radians' = Finite t, longitude_radians' = Finite 0, true_bearing_radians' = Finite 0\<rparr>
             \<and> t \<noteq> 0 \<and> \<bar>t\<bar> \<le> 2 powi (- 600)"
proof -
  obtain t where t: "math_radians (PyFloat (Finite L)) = Inr (Finite t)"
    and t0: "t \<noteq> 0" and tb: "\<bar>t\<bar> \<le> 2 powi (- 600)"
    using math_radians_tiny [OF assms] by blast
  have "(2::real) powi (- 610) \<le> 2 powi 0" by (rule two_powi_mono) simp
  also have "(2::real) powi 0 = 1" by simp
  finally have "\<bar>L\<bar> \<le> 1" using assms(2) by linarith
  then have "- 90 \<le> L" "L \<le> 90" by linarith+
  then have "BearingLine_init_double (PyFloat (Finite L)) (PyInt 0) (PyInt 0) (PyInt 0)
     = Inr \<lparr>latitude_radians' = Finite t, longitude_radians' = Finite 0, true_bearing_radians' = Finite 0\<rparr>"
    by (simp add: BearingLine_init_double_def t math_radians_zero)
  then show ?thesis using t0 tb by blast
qed

text \<open>
  C1, at an input where the code departs from it. The claim is that for every pair of
  lines with distinct origins \<open>_intersect\<close> ends in \<open>InfiniteIntersectionError\<close>, in
  \<open>AmbiguousIntersectionError\<close>, in \<open>None\<close> when \<open>suppress_errors\<close> is set, or goes
  on to compute an intersection. In
  \<open>BearingLine(0, 0, 0)._intersect(BearingLine(1e-200, 0, 0))\<close> the literal \<open>1e-200\<close>
  is the double \<open>1723641332219371 / 2 ** 715\<close>. Both lines are constructed and their
  latitudes in radians differ, so the guard of lines 205 to 212 passes. In line 217 the
  square of \<open>math.sin((lat1-lat2)/2)\<close> underflows to \<open>0.0\<close> and \<open>dst12\<close> is \<open>0.0\<close>;
  line 224 then divides by \<open>math.sin(dst12)*math.cos(lat1) = 0.0\<close>, and
  \<open>ZeroDivisionError\<close> is raised before the checks of lines 231 to 244 are reached,
  with \<open>suppress_errors\<close> false and true.
\<close>

theorem intersect_double_underflow:
  "\<exists>self other.
     BearingLine_init_double (PyInt 0) (PyInt 0) (PyInt 0) (PyInt 0) = Inr self
     \<and> BearingLine_init_double (PyFloat (Finite (1723641332219371 / 2 ^ 715)))
          (PyInt 0) (PyInt 0) (PyInt 0) = Inr other
     \<and> \<not> double_eq (latitude_radians' self) (latitude_radians' other)
     \<and> intersect_double self other False = Inl ZeroDivisionError
     \<and> intersect_double self other True = Inl ZeroDivisionError"
proof -
  define L :: real where "L = 1723641332219371 / 2 ^ 715"
  have "2 powi (- 1000) \<le> \<bar>L\<bar>" unfolding L_def by (simp add: power_int_minus field_simps)
  moreover have "\<bar>L\<bar> \<le> 2 powi (- 610)" unfolding L_def by (simp add: power_int_minus field_simps)
  ultimately obtain t where
    other: "BearingLine_init_double (PyFloat (Finite L)) (PyInt 0) (PyInt 0) (PyInt 0)
            = Inr \<lparr>latitude_radians' = Finite t, longitude_radians' = Finite 0, true_bearing_radians' = Finite 0\<rparr>"
    and t0: "t \<noteq> 0" and tb: "\<bar>t\<bar> \<le> 2 powi (- 600)"
    using BearingLine_init_double_tiny [of L] by blast
  have "\<not> double_eq (Finite 0) (Finite t)" using t0 by (simp add: double_eq_def)
  with BearingLine_init_double_origin other [unfolded L_def]
    intersect_double_zero_division [OF t0 tb, of "Finite 0" "Finite 0" False]
    intersect_double_zero_division [OF t0 tb, of "Finite 0" "Finite 0" True]
  show ?thesis by (intro exI conjI) simp_all
qed

theorem intersect_double_underflow_witness:
  "\<exists>self other.
     BearingLine_init_double (PyInt 0) (PyInt 0) (PyInt 0) (PyInt 0) = Inr self
     \<and> BearingLine_init_double (PyFloat (Finite (1723641332219371 / 2 ^ 715)))
          (PyInt 0) (PyInt 0) (PyInt 0) = Inr other
     \<and> intersect_double self other True \<noteq> Inr None"
  using intersect_double_underflow by auto

section \<open>Construction and the bounding box\<close>

text \<open>
  C6, as amended. With valid latitude, longitude and declination, the constructor of
  \<open>BearingLine\<close> succeeds for every numeric bearing in the closed interval \<open>[0, 360]\<close>
  and raises \<open>ValueError\<close> for every numeric bearing outside it.
\<close>

theorem bearing_closed_interval:
  assumes "latitude_setter la = Inr a" and "longitude_setter lo = Inr b"
    and "declination_setter d = Inr c" and "num_of v = Some x"
  shows "(0 \<le> x \<and> x \<le> 360 \<longrightarrow>
           BearingLine_init la lo v d =
             Inr \<lparr>latitude = a, longitude = b, latitude_radians = radians a,
                  longitude_radians = radians b, bearing = x, declination = c,
                  true_bearing = x + c, true_bearing_radians = radians (x + c)\<rparr>)
         \<and> (\<not> (0 \<le> x \<and> x \<le> 360) \<longrightarrow> BearingLine_init la lo v d = Inl ValueError)"
  using assms by (simp add: BearingLine_init_def bearing_setter_def)

theorem bearing_closed_interval_witness:
  "latitude_setter (PyNum 0) = Inr 0 \<and> longitude_setter (PyNum 0) = Inr 0
   \<and> declination_setter (PyNum 0) = Inr 0
   \<and> BearingLine_init (PyNum 0) (PyNum 0) (PyNum 0) (PyNum 0) = Inr (equator_line 0)
   \<and> BearingLine_init (PyNum 0) (PyNum 0) (PyNum 359.999) (PyNum 0) =
       Inr \<lparr>latitude = 0, longitude = 0, latitude_radians = 0, longitude_radians = 0,
            bearing = 359.999, declination = 0, true_bearing = 359.999,
            true_bearing_radians = radians 359.999\<rparr>
   \<and> BearingLine_init (PyNum 0) (PyNum 0) (PyNum 360.001) (PyNum 0) = Inl ValueError
   \<and> BearingLine_init (PyNum 0) (PyNum 0) (PyNum (- 1)) (PyNum 0) = Inl ValueError"
proof -
  have s: "latitude_setter (PyNum 0) = Inr 0" "longitude_setter (PyNum 0) = Inr 0"
    "declination_setter (PyNum 0) = Inr 0"
    by (simp_all add: latitude_setter_def longitude_setter_def declination_setter_def)
  have n: "\<And>x. num_of (PyNum x) = Some x" by simp
  show ?thesis
    using s bearing_closed_interval [OF s n, of 0]
      bearing_closed_interval [OF s n, of "359.999"]
      bearing_closed_interval [OF s n, of "360.001"]
      bearing_closed_interval [OF s n, of "- 1"]
    by (simp add: equator_line_def radians_def)
qed

text \<open>
  C6 as stated fails at the bearing \<open>360\<close>: \<open>BearingLine(0, 0, 360)\<close> is constructed,
  with the true bearing \<open>2\<pi>\<close> in radians.
\<close>

theorem bearing_360_accepted:
  "BearingLine_init (PyNum 0) (PyNum 0) (PyNum 360) (PyNum 0) =
     Inr \<lparr>latitude = 0, longitude = 0, latitude_radians = 0, longitude_radians = 0,
          bearing = 360, declination = 0, true_bearing = 360,
          true_bearing_radians = 2 * pi\<rparr>"
  by (simp add: BearingLine_init_def latitude_setter_def longitude_setter_def
        bearing_setter_def declination_setter_def radians_def)

text \<open>
  C7, as amended. \<open>bounding_box\<close> of an empty list or an empty tuple raises the
  built-in \<open>ValueError\<close>, from \<open>min\<close> of the empty list of longitudes; it returns no
  box.
\<close>

theorem bounding_box_empty:
  "bounding_box (PyList []) = Inl ValueError \<and> bounding_box (PyTuple []) = Inl ValueError"
  by (simp add: bounding_box_def)

text \<open>C7 as stated fails: the exception on the empty list is not \<open>EmptyInputError\<close>.\<close>

theorem bounding_box_empty_not_EmptyInputError:
  "bounding_box (PyList []) \<noteq> Inl EmptyInputError"
  by (simp add: bounding_box_def)

section \<open>\<open>get_haversine_distance\<close>\<close>

text \<open>
  C10. When \<open>get_haversine_distance\<close> is called with \<open>other\<close> set (to a
  \<open>BearingLine\<close>, or to any value but \<open>None\<close>) and exactly one of \<open>lat2\<close> and
  \<open>lon2\<close> set, no branch of the argument chain applies: nothing is raised there,
  nothing is validated, \<open>lat1\<close> stays unassigned and its first use raises
  \<open>UnboundLocalError\<close>. For every other shape of the arguments, on constructed lines,
  either the chain raises \<open>TypeError\<close>, \<open>ValueError\<close> or \<open>SyntaxError\<close> before any
  computation, or it assigns the locals and the distance is computed.
\<close>

theorem haversine_argument_shapes:
  assumes "constructed self" and "\<forall>l. other = PyLine l \<longrightarrow> constructed l"
  shows "(other \<noteq> PyNone \<and> (lat2 = PyNone) \<noteq> (lon2 = PyNone) \<longrightarrow>
            haversine_arguments self lat2 lon2 other = Inr None
            \<and> get_haversine_distance self lat2 lon2 other = Inl UnboundLocalError)
       \<and> (\<not> (other \<noteq> PyNone \<and> (lat2 = PyNone) \<noteq> (lon2 = PyNone)) \<longrightarrow>
            (\<exists>e. (e = TypeError \<or> e = ValueError \<or> e = SyntaxError)
                 \<and> haversine_arguments self lat2 lon2 other = Inl e
                 \<and> get_haversine_distance self lat2 lon2 other = Inl e)
            \<or> (\<exists>locals d. haversine_arguments self lat2 lon2 other = Inr (Some locals)
                 \<and> get_haversine_distance self lat2 lon2 other = Inr d))"
proof (rule conjI; rule impI)
  assume "other \<noteq> PyNone \<and> (lat2 = PyNone) \<noteq> (lon2 = PyNone)"
  then have "haversine_arguments self lat2 lon2 other = Inr None"
    by (auto simp add: haversine_arguments_def)
  then show "haversine_arguments self lat2 lon2 other = Inr None
            \<and> get_haversine_distance self lat2 lon2 other = Inl UnboundLocalError"
    by (simp add: get_haversine_distance_def)
next
  let ?A = "haversine_arguments self lat2 lon2 other"
  let ?G = "get_haversine_distance self lat2 lon2 other"
  let ?goal = "(\<exists>e. (e = TypeError \<or> e = ValueError \<or> e = SyntaxError) \<and> ?A = Inl e \<and> ?G = Inl e)
            \<or> (\<exists>locals d. ?A = Inr (Some locals) \<and> ?G = Inr d)"
  have err: "?goal" if "?A = Inl e" and "e = TypeError \<or> e = ValueError \<or> e = SyntaxError" for e
    using that by (auto simp add: get_haversine_distance_def)
  have ok: "?goal" if A: "?A = Inr (Some (a, b, c, d))" and c: "0 \<le> cos a * cos c" for a b c d
  proof -
    obtain k where "haversine_km a b c d = Inr k"
      using haversine_km_total [OF c] by blast
    with A show ?thesis by (simp add: get_haversine_distance_def)
  qed
  assume n: "\<not> (other \<noteq> PyNone \<and> (lat2 = PyNone) \<noteq> (lon2 = PyNone))"
  show ?goal
  proof (cases "other = PyNone")
    case True
    show ?thesis
    proof (cases "lat2 = PyNone \<and> lon2 = PyNone")
      case both: True
      with True have "?A = Inl SyntaxError" by (simp add: haversine_arguments_def)
      then show ?thesis by (rule err) simp
    next
      case False
      show ?thesis
      proof (cases "num_of lat2")
        case None
        with True False have "?A = Inl TypeError" by (simp add: haversine_arguments_def)
        then show ?thesis by (rule err) simp
      next
        case (Some a)
        show ?thesis
        proof (cases "num_of lon2")
          case None
          with True False Some have "?A = Inl TypeError" by (simp add: haversine_arguments_def)
          then show ?thesis by (rule err) simp
        next
          case b: (Some b)
          show ?thesis
          proof (cases "- 90 \<le> a \<and> a \<le> 90 \<and> - 180 \<le> b \<and> b \<le> 180")
            case range: True
            with True False Some b
            have "?A = Inr (Some (latitude_radians self, longitude_radians self,
                                radians a, radians b))"
              by (simp add: haversine_arguments_def)
            moreover have "0 \<le> cos (latitude_radians self) * cos (radians a)"
              using constructed_latitude [OF assms(1)] range
              by (intro mult_nonneg_nonneg cos_radians_nonneg) simp_all
            ultimately show ?thesis by (rule ok)
          next
            case out: False
            with True False Some b have "?A = Inl ValueError"
              by (simp add: haversine_arguments_def)
            then show ?thesis by (rule err) simp
          qed
        qed
      qed
    qed
  next
    case False
    with n have shape: "(lat2 = PyNone) = (lon2 = PyNone)" by simp
    show ?thesis
    proof (cases "lat2 = PyNone")
      case True
      with shape have lon: "lon2 = PyNone" by simp
      show ?thesis
      proof (cases "\<exists>l. other = PyLine l")
        case True
        then obtain l where l: "other = PyLine l" by blast
        with \<open>lat2 = PyNone\<close> lon
        have "?A = Inr (Some (latitude_radians self, longitude_radians self,
                                latitude_radians l, longitude_radians l))"
          by (simp add: haversine_arguments_def)
        moreover have "0 \<le> cos (latitude_radians self) * cos (latitude_radians l)"
          using constructed_latitude [OF assms(1)] constructed_latitude [of l] assms(2) l
          by (intro mult_nonneg_nonneg) simp_all
        ultimately show ?thesis by (rule ok)
      next
        case notline: False
        with False \<open>lat2 = PyNone\<close> lon have "?A = Inl TypeError"
          by (cases other) (simp_all add: haversine_arguments_def)
        then show ?thesis by (rule err) simp
      qed
    next
      case set: False
      with shape have "lon2 \<noteq> PyNone" by simp
      with False set have "?A = Inl SyntaxError" by (simp add: haversine_arguments_def)
      then show ?thesis by (rule err) simp
    qed
  qed
qed

theorem haversine_argument_shapes_witness:
  "constructed (equator_line 0)
   \<and> haversine_arguments (equator_line 0) (PyNum 1) PyNone (PyLine (equator_line 60)) = Inr None
   \<and> get_haversine_distance (equator_line 0) (PyNum 1) PyNone (PyLine (equator_line 60))
       = Inl UnboundLocalError
   \<and> get_haversine_distance (equator_line 0) PyNone (PyNum 1) (PyLine (equator_line 60))
       = Inl UnboundLocalError
   \<and> get_haversine_distance (equator_line 0) PyNone PyNone (PyLine (equator_line 60))
       = Inr (12742 * (pi / 6))
   \<and> get_haversine_distance (equator_line 0) (PyNum 1) PyNone PyNone = Inl TypeError"
proof -
  have c: "constructed (equator_line 0)" "constructed (equator_line 60)"
    by (simp_all add: equator_line_constructed)
  have o: "\<forall>l. PyLine (equator_line 60) = PyLine l \<longrightarrow> constructed l"
    "\<forall>l. PyNone = PyLine l \<longrightarrow> constructed l"
    using c by simp_all
  note t = haversine_argument_shapes [OF c(1)]
  from t [OF o(1), of "PyNum 1" PyNone] t [OF o(1), of PyNone "PyNum 1"]
    t [OF o(1), of PyNone PyNone] t [OF o(2), of "PyNum 1" PyNone] c(1)
  show ?thesis
    by (simp add: distance_0_to_60) (simp add: haversine_arguments_def)
qed


section \<open>Lemmas on \<open>get_intersect\<close>\<close>

lemma get_intersect_flags:
  "get_intersect self other (PyBool warn) (PyBool suppress) sgt ignore =
     (if \<not> (num_of sgt \<noteq> None \<or> sgt = PyNone) then Inl TypeError
      else
        bindE (intersect self other ignore) (\<lambda>intersection.
        if \<not> (warn \<or> suppress \<or> truthy sgt) then
          Inr (case intersection of None \<Rightarrow> PyNone
               | Some (la, lo) \<Rightarrow> PyTuple [PyNum la, PyNum lo])
        else
          (case intersection of
             None \<Rightarrow> Inr PyNone
           | Some (la, lo) \<Rightarrow>
               bindE (get_haversine_distance self (PyNum la) (PyNum lo) PyNone) (\<lambda>d1.
               bindE (method_get_haversine_distance other (PyNum la) (PyNum lo) PyNone) (\<lambda>d2.
               bindE (get_haversine_distance self PyNone PyNone other) (\<lambda>d3.
               if sgt \<noteq> PyNone
                  \<and> (case num_of sgt of Some cap \<Rightarrow> cap < max d1 d2 | None \<Rightarrow> False)
               then Inr PyNone
               else if 10000 < d1 \<and> 10000 < d2 \<and> d3 < 10000
               then (if suppress then Inr PyNone
                     else if warn then Inl ProbableDivergenceError
                     else bindE (Point_init (PyNum la) (PyNum lo)) (\<lambda>p. Inr (PyPoint p)))
               else bindE (Point_init (PyNum la) (PyNum lo)) (\<lambda>p. Inr (PyPoint p))))))))"
  unfolding get_intersect_def Let_def by (simp only: pyval.case)

lemma get_intersect_bool_flags:
  assumes "get_intersect self other warn suppress sgt ignore \<noteq> Inl TypeError"
  shows "\<exists>w s. warn = PyBool w \<and> suppress = PyBool s"
proof -
  have "\<exists>w. warn = PyBool w"
    using assms unfolding get_intersect_def by (cases warn) simp_all
  then obtain w where w: "warn = PyBool w" ..
  have "\<exists>s. suppress = PyBool s"
    using assms unfolding get_intersect_def w by (cases suppress) simp_all
  with w show ?thesis by blast
qed

lemma Point_init_num:
  "Point_init (PyNum la) (PyNum lo) =
     (if \<not> (- 90 \<le> la \<and> la \<le> 90) then Inl ValueError
      else if \<not> (- 180 \<le> lo \<and> lo \<le> 180) then Inl ValueError
      else Inr \<lparr>p_latitude = la, p_longitude = lo\<rparr>)"
  by (simp add: Point_init_def)

lemma distance_validates:
  assumes "get_haversine_distance self (PyNum la) (PyNum lo) PyNone = Inr d"
  shows "Point_init (PyNum la) (PyNum lo) = Inr \<lparr>p_latitude = la, p_longitude = lo\<rparr>"
proof -
  have "- 90 \<le> la \<and> la \<le> 90 \<and> - 180 \<le> lo \<and> lo \<le> 180"
    using assms
    by (simp add: get_haversine_distance_def haversine_arguments_def split: if_splits)
  then show ?thesis by (simp add: Point_init_num)
qed

lemma spherical_triangle_rounded:
  "\<exists>lat3 lon3. spherical_triangle lat1 lon1 crs13 dst12 ang1 ang2
      = Inr (py_round (degrees lat3) 5, py_round (degrees (- lon3)) 5)"
  unfolding spherical_triangle_def Let_def asin_safe_eq acos_safe_eq euclidean_modulo_exact_2pi bindE_Inr
  by (intro exI) (rule refl)

lemma bindE_eq_Inr:
  "bindE m f = Inr y \<longleftrightarrow> (\<exists>x. m = Inr x \<and> f x = Inr y)"
  by (cases m) simp_all

lemma intersect_Some_rounded:
  assumes "intersect self other ignore = Inr (Some (la, lo))"
  shows "\<exists>lat3 lon3. la = py_round (degrees lat3) 5 \<and> lo = py_round (degrees (- lon3)) 5"
proof -
  from assms obtain l where l: "other = PyLine l"
    unfolding intersect_def by (cases other) simp_all
  from assms l obtain s where s: "ignore = PyBool s"
    unfolding intersect_def by (cases ignore) simp_all
  have d: "\<not> (latitude_radians self = latitude_radians l
         \<and> longitude_radians self = longitude_radians l)"
  proof
    assume "latitude_radians self = latitude_radians l
         \<and> longitude_radians self = longitude_radians l"
    then have "intersect self (PyLine l) (PyBool s)
          = (if s then Inr None else Inl IdenticalInputPointError)"
      unfolding intersect_def Let_def by simp
    with assms l s show False by (simp split: if_splits)
  qed
  from assms [unfolded l s intersect_distinct [OF d] bindE_eq_Inr]
  obtain dst12 ang1 ang2 where
    "spherical_triangle (latitude_radians self) (- longitude_radians self)
        (true_bearing_radians self) dst12 ang1 ang2 = Inr (la, lo)"
    by (auto split: if_splits simp add: bindE_eq_Inr)
  with spherical_triangle_rounded [of "latitude_radians self" "- longitude_radians self"
        "true_bearing_radians self" dst12 ang1 ang2]
  show ?thesis by auto
qed

lemma haversine_km_error: "haversine_km a b c d = Inl e \<Longrightarrow> e = ValueError"
  unfolding haversine_km_def Let_def
  by (auto simp add: bindE_eq_Inl py_sqrt_def py_asin_def split: if_splits)

lemma haversine_arguments_error:
  "haversine_arguments self lat2 lon2 other = Inl e \<Longrightarrow>
     e = TypeError \<or> e = ValueError \<or> e = SyntaxError"
  unfolding haversine_arguments_def
  by (auto split: if_splits option.splits pyval.splits)

lemma get_haversine_distance_error:
  assumes "get_haversine_distance self lat2 lon2 other = Inl e"
  shows "e = TypeError \<or> e = ValueError \<or> e = SyntaxError \<or> e = UnboundLocalError"
proof (cases "haversine_arguments self lat2 lon2 other")
  case (Inl e')
  with assms have "e' = e" by (simp add: get_haversine_distance_def)
  with Inl haversine_arguments_error show ?thesis by blast
next
  case (Inr locals)
  show ?thesis
  proof (cases locals)
    case None
    with Inr assms show ?thesis by (simp add: get_haversine_distance_def)
  next
    case (Some t)
    obtain a b c d where "t = (a, b, c, d)" by (cases t) auto
    with Some Inr assms have "haversine_km a b c d = Inl e"
      by (simp add: get_haversine_distance_def)
    then show ?thesis by (simp add: haversine_km_error)
  qed
qed

lemma method_get_haversine_distance_error:
  assumes "method_get_haversine_distance obj lat2 lon2 other = Inl e"
  shows "e \<noteq> ProbableDivergenceError"
proof (cases "\<exists>l. obj = PyLine l")
  case True
  then obtain l where "obj = PyLine l" ..
  with assms have "get_haversine_distance l lat2 lon2 other = Inl e"
    by (simp add: method_get_haversine_distance_def)
  from get_haversine_distance_error [OF this] show ?thesis by auto
next
  case False
  with assms have "e = AttributeError"
    by (cases obj) (simp_all add: method_get_haversine_distance_def)
  then show ?thesis by simp
qed

lemma intersect_error:
  assumes "intersect self other ignore = Inl e"
  shows "e \<noteq> ProbableDivergenceError"
proof (cases "\<exists>l s. other = PyLine l \<and> ignore = PyBool s")
  case False
  with assms have "e = TypeError"
    unfolding intersect_def by (cases other; cases ignore) simp_all
  then show ?thesis by simp
next
  case True
  then obtain l s where ls: "other = PyLine l" "ignore = PyBool s" by blast
  show ?thesis
  proof (cases "latitude_radians self = latitude_radians l
         \<and> longitude_radians self = longitude_radians l")
    case True
    then have "intersect self (PyLine l) (PyBool s)
          = (if s then Inr None else Inl IdenticalInputPointError)"
      unfolding intersect_def Let_def by simp
    with assms ls show ?thesis by (auto split: if_splits)
  next
    case False
    let ?ca = "course_angles (latitude_radians self) (- longitude_radians self)
       (true_bearing_radians self) (latitude_radians l) (- longitude_radians l)
       (true_bearing_radians l)"
    show ?thesis
    proof (cases ?ca)
      case (Inl e')
      then have "e' = ValueError \<or> e' = ZeroDivisionError" by (rule course_angles_error)
      with Inl assms show ?thesis unfolding ls intersect_distinct [OF False] by auto
    next
      case (Inr t)
      obtain dst12 ang1 ang2 where t: "t = (dst12, ang1, ang2)" by (cases t) auto
      obtain p where "spherical_triangle (latitude_radians self) (- longitude_radians self)
          (true_bearing_radians self) dst12 ang1 ang2 = Inr p"
        using spherical_triangle_total by blast
      with Inr t assms show ?thesis
        unfolding ls intersect_distinct [OF False] by (auto split: if_splits)
    qed
  qed
qed

lemma Point_init_error: "Point_init a b = Inl e \<Longrightarrow> e = TypeError \<or> e = ValueError"
  unfolding Point_init_def by (auto split: option.splits if_splits)

lemma get_intersect_inactive:
  assumes "intersect self other ignore = Inr i"
    and "\<not> (warn \<or> suppress \<or> truthy sgt)" and "num_of sgt \<noteq> None \<or> sgt = PyNone"
  shows "get_intersect self other (PyBool warn) (PyBool suppress) sgt ignore =
           Inr (case i of None \<Rightarrow> PyNone | Some (la, lo) \<Rightarrow> PyTuple [PyNum la, PyNum lo])"
  unfolding get_intersect_flags assms(1) bindE_Inr using assms(2,3) by simp

lemma get_intersect_active_None:
  assumes "intersect self other ignore = Inr None"
    and "num_of sgt \<noteq> None \<or> sgt = PyNone"
  shows "get_intersect self other (PyBool warn) (PyBool suppress) sgt ignore = Inr PyNone"
  unfolding get_intersect_flags assms(1) bindE_Inr using assms(2) by simp

lemma get_intersect_active_bind:
  assumes i: "intersect self other ignore = Inr (Some (la, lo))"
    and act: "warn \<or> suppress \<or> truthy sgt" and ok: "num_of sgt \<noteq> None \<or> sgt = PyNone"
  shows "get_intersect self other (PyBool warn) (PyBool suppress) sgt ignore =
           bindE (get_haversine_distance self (PyNum la) (PyNum lo) PyNone) (\<lambda>d1.
           bindE (method_get_haversine_distance other (PyNum la) (PyNum lo) PyNone) (\<lambda>d2.
           bindE (get_haversine_distance self PyNone PyNone other) (\<lambda>d3.
           if sgt \<noteq> PyNone
              \<and> (case num_of sgt of Some cap \<Rightarrow> cap < max d1 d2 | None \<Rightarrow> False)
           then Inr PyNone
           else if 10000 < d1 \<and> 10000 < d2 \<and> d3 < 10000
           then (if suppress then Inr PyNone
                 else if warn then Inl ProbableDivergenceError
                 else bindE (Point_init (PyNum la) (PyNum lo)) (\<lambda>p. Inr (PyPoint p)))
           else bindE (Point_init (PyNum la) (PyNum lo)) (\<lambda>p. Inr (PyPoint p)))))"
proof -
  have a: "(\<not> (num_of sgt \<noteq> None \<or> sgt = PyNone)) = False" using ok by blast
  have b: "(\<not> (warn \<or> suppress \<or> truthy sgt)) = False" using act by blast
  show ?thesis
    unfolding get_intersect_flags i bindE_Inr a b if_False option.case prod.case
    by (rule refl)
qed

lemma get_intersect_active:
  assumes "intersect self other ignore = Inr (Some (la, lo))"
    and "warn \<or> suppress \<or> truthy sgt" and "num_of sgt \<noteq> None \<or> sgt = PyNone"
    and "get_haversine_distance self (PyNum la) (PyNum lo) PyNone = Inr d1"
    and "method_get_haversine_distance other (PyNum la) (PyNum lo) PyNone = Inr d2"
    and "get_haversine_distance self PyNone PyNone other = Inr d3"
  shows "get_intersect self other (PyBool warn) (PyBool suppress) sgt ignore =
           (if sgt \<noteq> PyNone
               \<and> (case num_of sgt of Some cap \<Rightarrow> cap < max d1 d2 | None \<Rightarrow> False)
            then Inr PyNone
            else if 10000 < d1 \<and> 10000 < d2 \<and> d3 < 10000
            then (if suppress then Inr PyNone
                  else if warn then Inl ProbableDivergenceError
                  else Inr (PyPoint \<lparr>p_latitude = la, p_longitude = lo\<rparr>))
            else Inr (PyPoint \<lparr>p_latitude = la, p_longitude = lo\<rparr>))"
  unfolding get_intersect_active_bind [OF assms(1,2,3)] assms(4,5,6) bindE_Inr
    distance_validates [OF assms(4)]
  by (rule refl)

lemma probable_divergence_if:
  assumes "intersect self other ignore = Inr (Some (la, lo))"
    and "get_haversine_distance self (PyNum la) (PyNum lo) PyNone = Inr d1"
    and "method_get_haversine_distance other (PyNum la) (PyNum lo) PyNone = Inr d2"
    and "get_haversine_distance self PyNone PyNone other = Inr d3"
    and "sgt = PyNone \<or> (\<exists>cap. num_of sgt = Some cap \<and> \<not> cap < max d1 d2)"
    and "10000 < d1" and "10000 < d2" and "d3 < 10000"
  shows "get_intersect self other (PyBool warn) (PyBool suppress) sgt ignore =
           (if suppress then Inr PyNone
            else if warn then Inl ProbableDivergenceError
            else if truthy sgt then Inr (PyPoint \<lparr>p_latitude = la, p_longitude = lo\<rparr>)
            else Inr (PyTuple [PyNum la, PyNum lo]))"
proof -
  have ok: "num_of sgt \<noteq> None \<or> sgt = PyNone" using assms(5) by auto
  show ?thesis
  proof (cases "warn \<or> suppress \<or> truthy sgt")
    case True
    from get_intersect_active [OF assms(1) True ok assms(2,3,4)] assms(5-8) True
    show ?thesis by auto
  next
    case False
    from get_intersect_inactive [OF assms(1) False ok] False show ?thesis by simp
  qed
qed

lemma probable_divergence_only_if:
  assumes e: "get_intersect self other warn suppress sgt ignore = Inl ProbableDivergenceError"
  shows "warn = PyBool True \<and> suppress = PyBool False
         \<and> (\<exists>la lo d1 d2 d3.
               intersect self other ignore = Inr (Some (la, lo))
               \<and> get_haversine_distance self (PyNum la) (PyNum lo) PyNone = Inr d1
               \<and> method_get_haversine_distance other (PyNum la) (PyNum lo) PyNone = Inr d2
               \<and> get_haversine_distance self PyNone PyNone other = Inr d3
               \<and> (sgt = PyNone \<or> (\<exists>cap. num_of sgt = Some cap \<and> \<not> cap < max d1 d2))
               \<and> 10000 < d1 \<and> 10000 < d2 \<and> d3 < 10000)"
proof -
  from e have "get_intersect self other warn suppress sgt ignore \<noteq> Inl TypeError" by simp
  then obtain w s where ws: "warn = PyBool w" "suppress = PyBool s"
    using get_intersect_bool_flags by blast
  note g = e [unfolded ws]
  have ok: "num_of sgt \<noteq> None \<or> sgt = PyNone"
  proof (rule ccontr)
    assume "\<not> ?thesis"
    then have "get_intersect self other (PyBool w) (PyBool s) sgt ignore = Inl TypeError"
      unfolding get_intersect_flags by simp
    with g show False by simp
  qed
  obtain i where i: "intersect self other ignore = Inr i"
  proof (cases "intersect self other ignore")
    case (Inl e')
    then have "get_intersect self other (PyBool w) (PyBool s) sgt ignore = Inl e'"
      unfolding get_intersect_flags using ok by simp
    with g intersect_error [OF Inl] show ?thesis by simp
  next
    case (Inr i)
    then show ?thesis by (rule that)
  qed
  have act: "w \<or> s \<or> truthy sgt"
  proof (rule ccontr)
    assume "\<not> ?thesis"
    from get_intersect_inactive [OF i this ok] g show False by simp
  qed
  have "i \<noteq> None"
  proof
    assume "i = None"
    from get_intersect_active_None [OF i [unfolded this] ok, of w s] g show False by simp
  qed
  then obtain la lo where p: "i = Some (la, lo)" by (cases i) auto
  note i' = i [unfolded p]
  let ?D1 = "get_haversine_distance self (PyNum la) (PyNum lo) PyNone"
  let ?D2 = "method_get_haversine_distance other (PyNum la) (PyNum lo) PyNone"
  let ?D3 = "get_haversine_distance self PyNone PyNone other"
  have u: "bindE ?D1 (\<lambda>d1. bindE ?D2 (\<lambda>d2. bindE ?D3 (\<lambda>d3.
             if sgt \<noteq> PyNone
                \<and> (case num_of sgt of Some cap \<Rightarrow> cap < max d1 d2 | None \<Rightarrow> False)
             then Inr PyNone
             else if 10000 < d1 \<and> 10000 < d2 \<and> d3 < 10000
             then (if s then Inr PyNone
                   else if w then Inl ProbableDivergenceError
                   else bindE (Point_init (PyNum la) (PyNum lo)) (\<lambda>p. Inr (PyPoint p)))
             else bindE (Point_init (PyNum la) (PyNum lo)) (\<lambda>p. Inr (PyPoint p))))) = Inl ProbableDivergenceError"
    using g unfolding get_intersect_active_bind [OF i' act ok] .
  obtain d1 where d1: "?D1 = Inr d1"
  proof (cases ?D1)
    case (Inl e')
    with u get_haversine_distance_error [OF Inl] show ?thesis by auto
  next
    case (Inr d)
    then show ?thesis by (rule that)
  qed
  obtain d2 where d2: "?D2 = Inr d2"
  proof (cases ?D2)
    case (Inl e')
    with u d1 method_get_haversine_distance_error [OF Inl] show ?thesis by auto
  next
    case (Inr d)
    then show ?thesis by (rule that)
  qed
  obtain d3 where d3: "?D3 = Inr d3"
  proof (cases ?D3)
    case (Inl e')
    with u d1 d2 get_haversine_distance_error [OF Inl] show ?thesis by auto
  next
    case (Inr d)
    then show ?thesis by (rule that)
  qed
  from get_intersect_active [OF i' act ok d1 d2 d3] g
  have "w \<and> \<not> s \<and> 10000 < d1 \<and> 10000 < d2 \<and> d3 < 10000
        \<and> \<not> (sgt \<noteq> PyNone
               \<and> (case num_of sgt of Some cap \<Rightarrow> cap < max d1 d2 | None \<Rightarrow> False))"
    by (simp split: if_splits)
  moreover from this ok
  have "sgt = PyNone \<or> (\<exists>cap. num_of sgt = Some cap \<and> \<not> cap < max d1 d2)"
    by (cases "num_of sgt") auto
  ultimately show ?thesis using ws i' d1 d2 d3 by blast
qed

lemma method_distance_pole_from_60:
  "method_get_haversine_distance (PyLine (equator_line 60)) (PyNum 90) (PyNum 0) PyNone
     = Inr (12742 * (pi / 4))"
  by (simp add: method_get_haversine_distance_def distance_pole_from_60)

lemma get_intersect_example_capped:
  "get_intersect (equator_line 0) (PyLine (equator_line 60)) (PyBool False) (PyBool False)
     (PyNum 20000) (PyBool False) = Inr (PyPoint \<lparr>p_latitude = 90, p_longitude = 0\<rparr>)"
proof -
  have a: "False \<or> False \<or> truthy (PyNum 20000)" by simp
  have ok: "num_of (PyNum 20000) \<noteq> None \<or> PyNum 20000 = PyNone" by simp
  from get_intersect_active [OF intersect_example a ok distance_pole_from_0
      method_distance_pole_from_60 distance_0_to_60]
    example_distances
  show ?thesis by simp
qed

text \<open>
  The range cap where the policy layer runs: with a flag set or a nonzero cap, an
  intersection farther than the cap from one of the origins gives \<open>None\<close>.
\<close>

lemma range_cap_when_active:
  assumes "intersect self other ignore = Inr (Some (la, lo))"
    and "get_haversine_distance self (PyNum la) (PyNum lo) PyNone = Inr d1"
    and "method_get_haversine_distance other (PyNum la) (PyNum lo) PyNone = Inr d2"
    and "get_haversine_distance self PyNone PyNone other = Inr d3"
    and "cap < max d1 d2" and "warn \<or> suppress \<or> cap \<noteq> 0"
  shows "get_intersect self other (PyBool warn) (PyBool suppress) (PyNum cap) ignore
           = Inr PyNone"
proof -
  have a: "warn \<or> suppress \<or> truthy (PyNum cap)" using assms(6) by simp
  have ok: "num_of (PyNum cap) \<noteq> None \<or> PyNum cap = PyNone" by simp
  from get_intersect_active [OF assms(1) a ok assms(2,3,4)] assms(5)
  show ?thesis by simp
qed

section \<open>The policy layer \<open>get_intersect\<close>\<close>

text \<open>
  What \<open>get_intersect\<close> returns. For every pair of lines and every setting of the flags,
  when the result is not \<open>None\<close>, the solver has produced an intersection whose
  coordinates are values rounded to 5 places and the result holds exactly these
  coordinates: in a \<open>Point\<close> when one of the three flags is truthy, in the tuple of
  \<open>_intersect\<close> when none is.
\<close>

theorem get_intersect_result_kind:
  assumes r: "get_intersect self other warn suppress sgt ignore = Inr r" and nn: "r \<noteq> PyNone"
  shows "\<exists>la lo. intersect self other ignore = Inr (Some (la, lo))
           \<and> (\<exists>lat3 lon3. la = py_round (degrees lat3) 5 \<and> lo = py_round (degrees (- lon3)) 5)
           \<and> r = (if truthy warn \<or> truthy suppress \<or> truthy sgt
                  then PyPoint \<lparr>p_latitude = la, p_longitude = lo\<rparr>
                  else PyTuple [PyNum la, PyNum lo])"
proof -
  from r have "get_intersect self other warn suppress sgt ignore \<noteq> Inl TypeError" by simp
  then obtain w s where ws: "warn = PyBool w" "suppress = PyBool s"
    using get_intersect_bool_flags by blast
  note g = r [unfolded ws]
  have ok: "num_of sgt \<noteq> None \<or> sgt = PyNone"
  proof (rule ccontr)
    assume "\<not> ?thesis"
    then have "get_intersect self other (PyBool w) (PyBool s) sgt ignore = Inl TypeError"
      unfolding get_intersect_flags by simp
    with g show False by simp
  qed
  obtain i where i: "intersect self other ignore = Inr i"
  proof (cases "intersect self other ignore")
    case (Inl e)
    then have "get_intersect self other (PyBool w) (PyBool s) sgt ignore = Inl e"
      unfolding get_intersect_flags using ok by simp
    with g show ?thesis by simp
  next
    case (Inr i)
    then show ?thesis by (rule that)
  qed
  have "i \<noteq> None"
  proof
    assume n: "i = None"
    show False
    proof (cases "w \<or> s \<or> truthy sgt")
      case True
      from get_intersect_active_None [OF i [unfolded n] ok, of w s] g nn show False by simp
    next
      case False
      from get_intersect_inactive [OF i False ok] g nn n show False by simp
    qed
  qed
  then obtain la lo where p: "i = Some (la, lo)" by (cases i) auto
  note i' = i [unfolded p]
  have "r = (if w \<or> s \<or> truthy sgt
                  then PyPoint \<lparr>p_latitude = la, p_longitude = lo\<rparr>
                  else PyTuple [PyNum la, PyNum lo])"
  proof (cases "w \<or> s \<or> truthy sgt")
    case False
    from get_intersect_inactive [OF i' False ok] g False show ?thesis by simp
  next
    case True
    let ?D1 = "get_haversine_distance self (PyNum la) (PyNum lo) PyNone"
    let ?D2 = "method_get_haversine_distance other (PyNum la) (PyNum lo) PyNone"
    let ?D3 = "get_haversine_distance self PyNone PyNone other"
    have u: "bindE ?D1 (\<lambda>d1. bindE ?D2 (\<lambda>d2. bindE ?D3 (\<lambda>d3.
             if sgt \<noteq> PyNone
                \<and> (case num_of sgt of Some cap \<Rightarrow> cap < max d1 d2 | None \<Rightarrow> False)
             then Inr PyNone
             else if 10000 < d1 \<and> 10000 < d2 \<and> d3 < 10000
             then (if s then Inr PyNone
                   else if w then Inl ProbableDivergenceError
                   else bindE (Point_init (PyNum la) (PyNum lo)) (\<lambda>p. Inr (PyPoint p)))
             else bindE (Point_init (PyNum la) (PyNum lo)) (\<lambda>p. Inr (PyPoint p))))) = Inr r"
      using g unfolding get_intersect_active_bind [OF i' True ok] .
    then obtain d1 where d1: "?D1 = Inr d1" by (cases ?D1) simp_all
    from u d1 obtain d2 where d2: "?D2 = Inr d2" by (cases ?D2) simp_all
    from u d1 d2 obtain d3 where d3: "?D3 = Inr d3" by (cases ?D3) simp_all
    from get_intersect_active [OF i' True ok d1 d2 d3] g nn True
    show ?thesis by (simp split: if_splits)
  qed
  with i' intersect_Some_rounded [OF i'] ws show ?thesis by simp
qed

theorem get_intersect_result_kind_witness:
  "get_intersect (equator_line 0) (PyLine (equator_line 60)) (PyBool False) (PyBool False)
     (PyNum 20000) (PyBool False) = Inr (PyPoint \<lparr>p_latitude = 90, p_longitude = 0\<rparr>)
   \<and> PyPoint \<lparr>p_latitude = 90, p_longitude = 0\<rparr> \<noteq> PyNone
   \<and> intersect (equator_line 0) (PyLine (equator_line 60)) (PyBool False) = Inr (Some (90, 0))
   \<and> truthy (PyNum 20000)"
  using get_intersect_result_kind [OF get_intersect_example_capped]
    get_intersect_example_capped intersect_example [of False]
  by simp

text \<open>
  C3, at an input where the code departs from it. The claim is that every result of
  \<open>get_intersect\<close> other than \<open>None\<close> is a \<open>Point\<close> holding the rounded coordinates
  of the solver, in particular with all policy flags inactive. For the lines
  \<open>BearingLine(0, 0, 0)\<close> and \<open>BearingLine(0, 60, 0)\<close>, with
  \<open>warn_probable_divergence\<close> and \<open>suppress_probable_divergence\<close> false and
  \<open>suppress_greater_than\<close> \<open>None\<close>, line 302 returns the tuple \<open>(90, 0)\<close> of
  \<open>_intersect\<close> as it is, where line 329 wraps the same pair in a \<open>Point\<close>.
\<close>

theorem get_intersect_returns_tuple:
  "get_intersect (equator_line 0) (PyLine (equator_line 60)) (PyBool False) (PyBool False)
     PyNone (PyBool False) = Inr (PyTuple [PyNum 90, PyNum 0])"
proof -
  have a: "\<not> (False \<or> False \<or> truthy PyNone)" by simp
  have ok: "num_of PyNone \<noteq> None \<or> PyNone = PyNone" by simp
  from get_intersect_inactive [OF intersect_example a ok] show ?thesis by simp
qed

theorem get_intersect_returns_tuple_witness:
  "get_intersect (equator_line 0) (PyLine (equator_line 60)) (PyBool False) (PyBool False)
     PyNone (PyBool False) \<noteq> Inr (PyPoint \<lparr>p_latitude = 90, p_longitude = 0\<rparr>)
   \<and> get_intersect (equator_line 0) (PyLine (equator_line 60)) (PyBool False) (PyBool False)
       PyNone (PyBool False) \<noteq> Inr PyNone"
  using get_intersect_returns_tuple by simp

text \<open>
  C4, at an input where the code departs from it. The claim is that whenever the solver
  produces an intersection and the larger of the two distances from the origins to it
  exceeds a numeric \<open>suppress_greater_than\<close>, \<open>get_intersect\<close> returns \<open>None\<close>. The
  lines \<open>BearingLine(0, 0, 0)\<close> and \<open>BearingLine(0, 60, 0)\<close> intersect at the pole
  \<open>(90, 0)\<close>, at the distance \<open>6371 \<pi> / 2\<close> km from both origins. With
  \<open>suppress_greater_than = 0\<close> and the two other flags false,
  \<open>any([False, False, 0])\<close> is false and the tuple of the solver is returned although
  the larger distance exceeds the cap; with the two other flags set, the same cap gives
  \<open>None\<close>.
\<close>

theorem zero_cap_returns_intersection:
  "intersect (equator_line 0) (PyLine (equator_line 60)) (PyBool False) = Inr (Some (90, 0))
   \<and> get_haversine_distance (equator_line 0) (PyNum 90) (PyNum 0) PyNone
       = Inr (12742 * (pi / 4))
   \<and> get_haversine_distance (equator_line 60) (PyNum 90) (PyNum 0) PyNone
       = Inr (12742 * (pi / 4))
   \<and> 0 < max (12742 * (pi / 4)) (12742 * (pi / 4))
   \<and> get_intersect (equator_line 0) (PyLine (equator_line 60)) (PyBool False) (PyBool False)
       (PyNum 0) (PyBool False) = Inr (PyTuple [PyNum 90, PyNum 0])
   \<and> get_intersect (equator_line 0) (PyLine (equator_line 60)) (PyBool True) (PyBool True)
       (PyNum 0) (PyBool False) = Inr PyNone"
proof -
  have a: "\<not> (False \<or> False \<or> truthy (PyNum 0))" by simp
  have a': "True \<or> True \<or> truthy (PyNum 0)" by simp
  have ok: "num_of (PyNum 0) \<noteq> None \<or> PyNum 0 = PyNone" by simp
  from get_intersect_inactive [OF intersect_example a ok]
  have 1: "get_intersect (equator_line 0) (PyLine (equator_line 60)) (PyBool False)
     (PyBool False) (PyNum 0) (PyBool False) = Inr (PyTuple [PyNum 90, PyNum 0])"
    by simp
  from get_intersect_active [OF intersect_example a' ok distance_pole_from_0
      method_distance_pole_from_60 distance_0_to_60]
  have 2: "get_intersect (equator_line 0) (PyLine (equator_line 60)) (PyBool True)
     (PyBool True) (PyNum 0) (PyBool False) = Inr PyNone"
    by simp
  from 1 2 show ?thesis
    by (simp add: intersect_example distance_pole_from_0 distance_pole_from_60)
qed

theorem zero_cap_returns_intersection_witness:
  "get_intersect (equator_line 0) (PyLine (equator_line 60)) (PyBool False) (PyBool False)
     (PyNum 0) (PyBool False) \<noteq> Inr PyNone
   \<and> get_intersect (equator_line 0) (PyLine (equator_line 60)) (PyBool True) (PyBool True)
       (PyNum 0) (PyBool False) = Inr PyNone"
  using zero_cap_returns_intersection by simp

text \<open>
  The policy on probable divergence. For every pair of lines whose raw intersection
  exists, is not range-capped by \<open>suppress_greater_than\<close>, and satisfies the heuristic
  (both origin-to-intersection distances above 10000 km, the origin-to-origin distance
  below 10000 km): \<open>get_intersect\<close> returns \<open>None\<close> when
  \<open>suppress_probable_divergence\<close> is true, raises \<open>ProbableDivergenceError\<close> when it
  is false and \<open>warn_probable_divergence\<close> is true, and otherwise returns the
  intersection, in a \<open>Point\<close> when \<open>suppress_greater_than\<close> is truthy and in the tuple
  of \<open>_intersect\<close> when it is not. \<open>ProbableDivergenceError\<close> is raised under no other
  condition.
\<close>

theorem probable_divergence_policy:
  "(intersect self other ignore = Inr (Some (la, lo))
      \<and> get_haversine_distance self (PyNum la) (PyNum lo) PyNone = Inr d1
      \<and> method_get_haversine_distance other (PyNum la) (PyNum lo) PyNone = Inr d2
      \<and> get_haversine_distance self PyNone PyNone other = Inr d3
      \<and> (sgt = PyNone \<or> (\<exists>cap. num_of sgt = Some cap \<and> \<not> cap < max d1 d2))
      \<and> 10000 < d1 \<and> 10000 < d2 \<and> d3 < 10000
    \<longrightarrow> get_intersect self other (PyBool warn) (PyBool suppress) sgt ignore =
           (if suppress then Inr PyNone
            else if warn then Inl ProbableDivergenceError
            else if truthy sgt then Inr (PyPoint \<lparr>p_latitude = la, p_longitude = lo\<rparr>)
            else Inr (PyTuple [PyNum la, PyNum lo])))
   \<and> (get_intersect self other w s sgt ignore = Inl ProbableDivergenceError
    \<longrightarrow> w = PyBool True \<and> s = PyBool False
        \<and> (\<exists>la lo d1 d2 d3.
               intersect self other ignore = Inr (Some (la, lo))
               \<and> get_haversine_distance self (PyNum la) (PyNum lo) PyNone = Inr d1
               \<and> method_get_haversine_distance other (PyNum la) (PyNum lo) PyNone = Inr d2
               \<and> get_haversine_distance self PyNone PyNone other = Inr d3
               \<and> (sgt = PyNone \<or> (\<exists>cap. num_of sgt = Some cap \<and> \<not> cap < max d1 d2))
               \<and> 10000 < d1 \<and> 10000 < d2 \<and> d3 < 10000))"
proof (rule conjI; rule impI)
  assume "intersect self other ignore = Inr (Some (la, lo))
      \<and> get_haversine_distance self (PyNum la) (PyNum lo) PyNone = Inr d1
      \<and> method_get_haversine_distance other (PyNum la) (PyNum lo) PyNone = Inr d2
      \<and> get_haversine_distance self PyNone PyNone other = Inr d3
      \<and> (sgt = PyNone \<or> (\<exists>cap. num_of sgt = Some cap \<and> \<not> cap < max d1 d2))
      \<and> 10000 < d1 \<and> 10000 < d2 \<and> d3 < 10000"
  then show "get_intersect self other (PyBool warn) (PyBool suppress) sgt ignore =
           (if suppress then Inr PyNone
            else if warn then Inl ProbableDivergenceError
            else if truthy sgt then Inr (PyPoint \<lparr>p_latitude = la, p_longitude = lo\<rparr>)
            else Inr (PyTuple [PyNum la, PyNum lo]))"
    by (elim conjE) (rule probable_divergence_if)
next
  assume "get_intersect self other w s sgt ignore = Inl ProbableDivergenceError"
  then show "w = PyBool True \<and> s = PyBool False
        \<and> (\<exists>la lo d1 d2 d3.
               intersect self other ignore = Inr (Some (la, lo))
               \<and> get_haversine_distance self (PyNum la) (PyNum lo) PyNone = Inr d1
               \<and> method_get_haversine_distance other (PyNum la) (PyNum lo) PyNone = Inr d2
               \<and> get_haversine_distance self PyNone PyNone other = Inr d3
               \<and> (sgt = PyNone \<or> (\<exists>cap. num_of sgt = Some cap \<and> \<not> cap < max d1 d2))
               \<and> 10000 < d1 \<and> 10000 < d2 \<and> d3 < 10000)"
    by (rule probable_divergence_only_if)
qed

theorem probable_divergence_policy_witness:
  "intersect (equator_line 0) (PyLine (equator_line 60)) (PyBool False) = Inr (Some (90, 0))
   \<and> get_haversine_distance (equator_line 0) (PyNum 90) (PyNum 0) PyNone
       = Inr (12742 * (pi / 4))
   \<and> method_get_haversine_distance (PyLine (equator_line 60)) (PyNum 90) (PyNum 0) PyNone
       = Inr (12742 * (pi / 4))
   \<and> get_haversine_distance (equator_line 0) PyNone PyNone (PyLine (equator_line 60))
       = Inr (12742 * (pi / 6))
   \<and> 10000 < 12742 * (pi / 4) \<and> 12742 * (pi / 6) < 10000
   \<and> \<not> 20000 < max (12742 * (pi / 4)) (12742 * (pi / 4))
   \<and> get_intersect (equator_line 0) (PyLine (equator_line 60)) (PyBool True) (PyBool True)
       PyNone (PyBool False) = Inr PyNone
   \<and> get_intersect (equator_line 0) (PyLine (equator_line 60)) (PyBool False) (PyBool True)
       PyNone (PyBool False) = Inr PyNone
   \<and> get_intersect (equator_line 0) (PyLine (equator_line 60)) (PyBool True) (PyBool False)
       PyNone (PyBool False) = Inl ProbableDivergenceError
   \<and> get_intersect (equator_line 0) (PyLine (equator_line 60)) (PyBool False) (PyBool False)
       (PyNum 20000) (PyBool False) = Inr (PyPoint \<lparr>p_latitude = 90, p_longitude = 0\<rparr>)
   \<and> get_intersect (equator_line 0) (PyLine (equator_line 60)) (PyBool False) (PyBool False)
       PyNone (PyBool False) = Inr (PyTuple [PyNum 90, PyNum 0])"
proof -
  let ?A = "equator_line 0" and ?B = "PyLine (equator_line 60)"
  let ?d = "12742 * (pi / 4)"
  note h = intersect_example [of False] distance_pole_from_0 method_distance_pole_from_60
    distance_0_to_60
  have m: "\<not> 20000 < max ?d ?d" using example_distances(3) by simp
  have c0: "PyNone = PyNone \<or> (\<exists>cap. num_of PyNone = Some cap \<and> \<not> cap < max ?d ?d)"
    by simp
  have c1: "PyNum 20000 = PyNone
              \<or> (\<exists>cap. num_of (PyNum 20000) = Some cap \<and> \<not> cap < max ?d ?d)"
    using m by simp
  note p0 = conjI [OF h(1) conjI [OF h(2) conjI [OF h(3) conjI [OF h(4) conjI [OF c0
      conjI [OF example_distances(1) conjI [OF example_distances(1) example_distances(2)]]]]]]]
  note p1 = conjI [OF h(1) conjI [OF h(2) conjI [OF h(3) conjI [OF h(4) conjI [OF c1
      conjI [OF example_distances(1) conjI [OF example_distances(1) example_distances(2)]]]]]]]
  note t0 = probable_divergence_policy [THEN conjunct1, THEN mp, OF p0]
  note t1 = probable_divergence_policy [THEN conjunct1, THEN mp, OF p1]
  have r1: "get_intersect ?A ?B (PyBool True) (PyBool True) PyNone (PyBool False) = Inr PyNone"
    using t0 [of True True] by simp
  have r2: "get_intersect ?A ?B (PyBool False) (PyBool True) PyNone (PyBool False) = Inr PyNone"
    using t0 [of False True] by simp
  have r3: "get_intersect ?A ?B (PyBool True) (PyBool False) PyNone (PyBool False)
              = Inl ProbableDivergenceError"
    using t0 [of True False] by simp
  have r4: "get_intersect ?A ?B (PyBool False) (PyBool False) (PyNum 20000) (PyBool False)
              = Inr (PyPoint \<lparr>p_latitude = 90, p_longitude = 0\<rparr>)"
    using t1 [of False False] by simp
  have r5: "get_intersect ?A ?B (PyBool False) (PyBool False) PyNone (PyBool False)
              = Inr (PyTuple [PyNum 90, PyNum 0])"
    using t0 [of False False] by simp
  show ?thesis
    by (intro conjI h example_distances(1,2) m r1 r2 r3 r4 r5)
qed

text \<open>
  C5, at an input where the code departs from it. The claim is that on lines whose
  intersection exists, is not range-capped and satisfies the heuristic, \<open>get_intersect\<close>
  returns \<open>None\<close> when \<open>suppress_probable_divergence\<close> is true, raises
  \<open>ProbableDivergenceError\<close> when it is false and \<open>warn_probable_divergence\<close> is true,
  and otherwise returns the computed \<open>Point\<close>. The lines \<open>BearingLine(0, 0, 0)\<close> and
  \<open>BearingLine(0, 60, 0)\<close> satisfy the heuristic (both distances to the intersection are
  \<open>6371 \<pi> / 2\<close> km, the distance between the origins is \<open>6371 \<pi> / 3\<close> km); with both
  flags false and no cap, line 302 returns the tuple of \<open>_intersect\<close>, not a \<open>Point\<close>.
\<close>

theorem probable_divergence_unflagged_tuple:
  "get_haversine_distance (equator_line 0) (PyNum 90) (PyNum 0) PyNone
     = Inr (12742 * (pi / 4))
   \<and> method_get_haversine_distance (PyLine (equator_line 60)) (PyNum 90) (PyNum 0) PyNone
       = Inr (12742 * (pi / 4))
   \<and> get_haversine_distance (equator_line 0) PyNone PyNone (PyLine (equator_line 60))
       = Inr (12742 * (pi / 6))
   \<and> 10000 < 12742 * (pi / 4) \<and> 12742 * (pi / 6) < 10000
   \<and> get_intersect (equator_line 0) (PyLine (equator_line 60)) (PyBool False) (PyBool False)
       PyNone (PyBool False)
       \<noteq> Inr (PyPoint \<lparr>p_latitude = 90, p_longitude = 0\<rparr>)
   \<and> get_intersect (equator_line 0) (PyLine (equator_line 60)) (PyBool False) (PyBool False)
       PyNone (PyBool False) = Inr (PyTuple [PyNum 90, PyNum 0])"
proof -
  have a: "\<not> (False \<or> False \<or> truthy PyNone)" by simp
  have ok: "num_of PyNone \<noteq> None \<or> PyNone = PyNone" by simp
  from get_intersect_inactive [OF intersect_example a ok]
  have t: "get_intersect (equator_line 0) (PyLine (equator_line 60)) (PyBool False)
     (PyBool False) PyNone (PyBool False) = Inr (PyTuple [PyNum 90, PyNum 0])"
    by simp
  then have n: "get_intersect (equator_line 0) (PyLine (equator_line 60)) (PyBool False)
     (PyBool False) PyNone (PyBool False)
       \<noteq> Inr (PyPoint \<lparr>p_latitude = 90, p_longitude = 0\<rparr>)"
    by simp
  show ?thesis
    by (intro conjI distance_pole_from_0 method_distance_pole_from_60 distance_0_to_60
          example_distances(1,2) n t)
qed

theorem probable_divergence_unflagged_tuple_witness:
  "get_intersect (equator_line 0) (PyLine (equator_line 60)) (PyBool False) (PyBool False)
     PyNone (PyBool False) \<noteq> Inl ProbableDivergenceError
   \<and> 10000 < 12742 * (pi / 4)"
  using probable_divergence_unflagged_tuple by simp

end
